theory Spec2Isabelle
  imports Main "HOL-Library.AList" "HOL-Library.Sublist"
begin

section \<open>Static configuration (src/setup.py)\<close>

text \<open>
  The tables of \<^verbatim>\<open>SystemSetup\<close>. Python dictionaries are association lists in
  declaration order, so that the order of candidate routes and of the drivers inside a
  route is kept. Lookups go through \<^const>\<open>map_of\<close>.
\<close>

datatype driver_decl =
    DriverRXV1900 string
  | DriverSpotify
  | DriverBasicIR string string
  | DriverIRPlus string string
  | DriverPlex string string string
  | DriverRoku string
  | DriverNull

definition AV :: string where
  "AV = ''http://raspberry.sfo.sensenet.nu''"

definition DRIVER_TABLE :: "(string \<times> driver_decl) list" where
  "DRIVER_TABLE =
    [(''receiver'', DriverRXV1900 (AV @ '':5000'')),
     (''spotify'', DriverSpotify),
     (''splitter'', DriverBasicIR (AV @ '':5001'') ''../ir-devices/accessories/sony-hdmiswitch.json''),
     (''tv'', DriverBasicIR (AV @ '':5001'') ''../ir-devices/displays/lg-55la7400.json''),
     (''dvd'', DriverIRPlus (AV @ '':5001'') ''config/dvd.json''),
     (''screen'', DriverBasicIR (AV @ '':5001'') ''../ir-devices/accessories/elite_screens-electric100h.json''),
     (''projector'', DriverIRPlus (AV @ '':5001'') ''config/projector.json''),
     (''plex'', DriverPlex ''plex.sfo.sensenet.nu'' ''00:25:22:e0:94:7d'' ''eth1''),
     (''roku'', DriverRoku ''roku.sfo.sensenet.nu''),
     (''null1'', DriverNull)]"

text \<open>A route maps a driver id to the commands to send to it.\<close>

type_synonym route = "(string \<times> string list) list"

definition ROUTING_TABLE :: "(string \<times> (string \<times> route list) list) list" where
  "ROUTING_TABLE =
    [(''spotify'',
       [(''audio'', [[(''receiver'', [''input-mdcdr''])]])]),
     (''null1'',
       [(''audio'', [[(''receiver'', [''input-cd''])]])]),
     (''plex'',
       [(''audio'', [[(''receiver'', [''input-dvr''])]]),
        (''audio+video'',
          [[(''tv'', [''input-hdmi1'']), (''receiver'', [''input-dvr''])],
           [(''projector'', []), (''receiver'', [''input-dvr'']), (''screen'', [])]])]),
     (''roku'',
       [(''audio+video'',
          [[(''tv'', [''input-hdmi1'']), (''receiver'', [''input-dvd''])],
           [(''projector'', []), (''receiver'', [''input-dvd'']), (''screen'', [])]]),
        (''audio'', [[(''receiver'', [''input-dvd''])]])]),
     (''ps4'',
       [(''audio+video'',
          [[(''receiver'', [''input-cbl'']), (''tv'', [''input-hdmi1'']),
            (''splitter'', [''input-hdmi2''])],
           [(''receiver'', [''input-cbl'']), (''projector'', []),
            (''splitter'', [''input-hdmi2'']), (''screen'', [])]]),
        (''audio'',
          [[(''receiver'', [''input-cbl'']), (''splitter'', [''input-hdmi2''])]])]),
     (''dvd'',
       [(''audio+video'',
          [[(''receiver'', [''input-cbl'']), (''tv'', [''input-hdmi1'']),
            (''splitter'', [''input-hdmi3''])],
           [(''receiver'', [''input-cbl'']), (''projector'', []),
            (''splitter'', [''input-hdmi3'']), (''screen'', [])]]),
        (''audio'',
          [[(''receiver'', [''input-cbl'']), (''splitter'', [''input-hdmi3''])]])])]"

record scene =
  scene_driver :: string
  scene_driver_extras :: "string option"
  scene_name :: string
  scene_description :: string
  scene_audio :: bool
  scene_video :: bool
  scene_ux_hint :: string

definition SCENE_TABLE :: "(string \<times> scene) list" where
  \<open>SCENE_TABLE =
    [(''spotify'',
       \<lparr>scene_driver = ''spotify'', scene_driver_extras = None, scene_name = ''Spotify'',
        scene_description = ''Allows you to listen to music'',
        scene_audio = True, scene_video = False,
        scene_ux_hint = ''android-app=com.spotify.music,category=music,icon=spotify''\<rparr>),
     (''airplay'',
       \<lparr>scene_driver = ''null1'', scene_driver_extras = None, scene_name = ''AirPlay'',
        scene_description = ''Streams from "House Speakers"'',
        scene_audio = True, scene_video = False,
        scene_ux_hint = ''category=music,icon=airplay,message=Connect your iOS device to "House Speakers" to stream music to the speakers''\<rparr>),
     (''dvd'',
       \<lparr>scene_driver = ''dvd'', scene_driver_extras = None, scene_name = ''DVD Player'',
        scene_description = ''Region free DVD player'',
        scene_audio = True, scene_video = True,
        scene_ux_hint = ''category=video,icon=dvd''\<rparr>),
     (''plex'',
       \<lparr>scene_driver = ''plex'', scene_driver_extras = None, scene_name = ''Plex Media Center'',
        scene_description = ''Watch movies and TV series'',
        scene_audio = True, scene_video = True,
        scene_ux_hint = ''category=video,icon=plex''\<rparr>),
     (''netflix'',
       \<lparr>scene_driver = ''roku'', scene_driver_extras = Some ''app=netflix'',
        scene_name = ''NetFlix'',
        scene_description = ''Watch movies and TV series'',
        scene_audio = True, scene_video = True,
        scene_ux_hint = ''category=video,icon=netflix''\<rparr>),
     (''amazon'',
       \<lparr>scene_driver = ''roku'', scene_driver_extras = Some ''app=amazon'',
        scene_name = ''Amazon Prime'',
        scene_description = ''Watch movies and TV series'',
        scene_audio = True, scene_video = True,
        scene_ux_hint = ''category=video,icon=amazon''\<rparr>),
     (''ps4'',
       \<lparr>scene_driver = ''ps4'', scene_driver_extras = None, scene_name = ''Playstation 4'',
        scene_description = ''Play games'',
        scene_audio = True, scene_video = True,
        scene_ux_hint = ''category=gaming,icon=ps4''\<rparr>)]\<close>

text \<open>
  A zone is either simple (an audio and a video driver reference, each possibly
  \<^verbatim>\<open>None\<close>) or virtual (sub-zones and the name of the default one). The key
  \<^verbatim>\<open>subzone-default\<close> may be absent from a dictionary, hence the option.
\<close>

record simple_zone =
  zone_name :: string
  zone_audio :: "string option"
  zone_video :: "string option"
  zone_ux_hint :: string

datatype zone =
    Simple simple_zone
  | Virtual string "string option" "(string \<times> simple_zone) list" string

definition ZONE_TABLE :: "(string \<times> zone) list" where
  "ZONE_TABLE =
    [(''zone1'',
       Virtual ''Livingroom'' (Some ''tv'')
         [(''tv'',
            \<lparr>zone_name = ''TV'', zone_audio = Some ''receiver:1'',
             zone_video = Some ''tv'', zone_ux_hint = ''''\<rparr>),
          (''projector'',
            \<lparr>zone_name = ''Cinema'', zone_audio = Some ''receiver:1'',
             zone_video = Some ''projector'', zone_ux_hint = ''''\<rparr>)]
         ''''),
     (''zone2'',
       Simple \<lparr>zone_name = ''Kitchen'', zone_audio = Some ''receiver:2'',
               zone_video = None, zone_ux_hint = ''''\<rparr>),
     (''zone3'',
       Simple \<lparr>zone_name = ''Patio'', zone_audio = Some ''receiver:3'',
               zone_video = None, zone_ux_hint = ''''\<rparr>)]"

text \<open>
  The driver ids the configuration refers to: the producing driver of every scene, and
  the driver keys of every route of every scene driver and capability class.
\<close>

definition scene_drivers :: "(string \<times> scene) list \<Rightarrow> string list" where
  "scene_drivers scenes = map (\<lambda>(sid, sc). scene_driver sc) scenes"

definition route_drivers :: "(string \<times> (string \<times> route list) list) list \<Rightarrow> string list" where
  "route_drivers table =
     concat (map (\<lambda>(drv, classes).
       concat (map (\<lambda>(cls, routes). concat (map (map fst) routes)) classes)) table)"

definition declared :: "(string \<times> driver_decl) list \<Rightarrow> string \<Rightarrow> bool" where
  "declared drivers d = (map_of drivers d \<noteq> None)"

definition undeclared_refs :: "string list" where
  "undeclared_refs =
     remdups (filter (\<lambda>d. \<not> declared DRIVER_TABLE d)
       (scene_drivers SCENE_TABLE @ route_drivers ROUTING_TABLE))"


section \<open>Python values, errors and effects\<close>

text \<open>
  The drivers are Python 2 classes that talk to devices over HTTP. An exception is a
  value of \<open>py_error\<close>; everything a driver does to the outside world (a line printed,
  a request sent, a pause) is an \<open>event\<close> appended to a trace, which is kept also when
  the call ends in an exception. The HTTP client is taken to answer every request: the
  answer is a parameter of the model.
\<close>

datatype py_error =
    NameError string
  | KeyError string
  | ValueError string
  | AttributeError string
  | IOError string
  | ParseError

datatype event =
    Print string
  | HttpGet string
  | HttpPost string



definition is_digit_char :: "char \<Rightarrow> bool" where
  "is_digit_char c = (c \<in> set ''0123456789'')"

text \<open>\<^verbatim>\<open>str.isdigit()\<close>: at least one character, and all of them digits.\<close>

definition isdigit :: "string \<Rightarrow> bool" where
  "isdigit s = (s \<noteq> [] \<and> list_all is_digit_char s)"

text \<open>\<^verbatim>\<open>str.split(sep)\<close> with a one-character separator; the empty string gives one empty field.\<close>

fun split :: "char \<Rightarrow> string \<Rightarrow> string list" where
  "split sep [] = [[]]"
| "split sep (c # cs) =
     (if c = sep then [] # split sep cs
      else (case split sep cs of
              [] \<Rightarrow> [[c]]
            | w # ws \<Rightarrow> (c # w) # ws))"

text \<open>\<^verbatim>\<open>str.lower()\<close> on a byte string: the ASCII capitals only.\<close>

definition lower_char :: "char \<Rightarrow> char" where
  "lower_char c =
     (let n = (of_char c :: nat) in if 65 \<le> n \<and> n \<le> 90 then char_of (n + 32) else c)"

definition lower :: "string \<Rightarrow> string" where
  "lower s = map lower_char s"

text \<open>\<^verbatim>\<open>s.find(sub) > -1\<close>: \<open>sub\<close> occurs in \<open>s\<close> as a contiguous piece.\<close>

definition found_in :: "string \<Rightarrow> string \<Rightarrow> bool" where
  "found_in s sub = list_ex (prefix sub) (suffixes s)"

definition digit_val :: "char \<Rightarrow> nat" where
  "digit_val c = of_char c - 48"

definition is_space_char :: "char \<Rightarrow> bool" where
  "is_space_char c = ((of_char c :: nat) \<in> set [9, 10, 11, 12, 13, 32])"

text \<open>
  \<^verbatim>\<open>int(s)\<close> on a string: surrounding white space is dropped, one sign is allowed, and
  what remains must be a non-empty run of digits; anything else is a ValueError
  (\<open>None\<close> here).
\<close>

definition py_int :: "string \<Rightarrow> int option" where
  "py_int s =
     (let t = rev (dropWhile is_space_char (rev (dropWhile is_space_char s)));
          neg = (t \<noteq> [] \<and> hd t = CHR ''-'');
          u = (if t \<noteq> [] \<and> (hd t = CHR ''-'' \<or> hd t = CHR ''+'') then tl t else t)
      in if isdigit u
         then (let n = int (foldl (\<lambda>acc c. 10 * acc + digit_val c) 0 u)
               in Some (if neg then - n else n))
         else None)"

text \<open>\<^verbatim>\<open>"%d" % n\<close>.\<close>

fun show_nat :: "nat \<Rightarrow> string" where
  "show_nat n =
     (if n < 10 then [char_of (48 + n)]
      else show_nat (n div 10) @ [char_of (48 + n mod 10)])"

definition show_int :: "int \<Rightarrow> string" where
  "show_int i = (if i < 0 then CHR ''-'' # show_nat (nat (- i)) else show_nat (nat i))"

section \<open>The base driver state\<close>

text \<open>
  Both drivers derive from \<^verbatim>\<open>DriverNull\<close>, whose source is not available. The two attributes the subclasses read and write, the command table and
  the power flag, are its fields here; their initial values are a parameter of the
  constructors.
\<close>

record handler_entry =
  arguments :: nat
  extras :: string
  hname :: string
  hdescription :: string
  htype :: int

record driver_null =
  COMMAND_HANDLER :: "(string \<times> handler_entry) list"
  power :: bool

section \<open>The IR driver (src/driver\_irplus.py)\<close>

record irplus = driver_null +
  server :: string
  cmd_on :: "string option"
  cmd_off :: "string option"
  ircmds :: "(string \<times> string) list"

text \<open>
  The parsed JSON configuration. The keys \<^verbatim>\<open>file\<close>, \<^verbatim>\<open>commands\<close> and
  \<^verbatim>\<open>type\<close> are read unconditionally and are fields; \<^verbatim>\<open>sequence\<close>,
  \<^verbatim>\<open>name\<close> and \<^verbatim>\<open>description\<close> are tested with \<^verbatim>\<open>in\<close> and are options.
\<close>

record cmd_cfg =
  cmd_type :: int
  cmd_sequence :: "string option"
  cmd_name :: "string option"
  cmd_description :: "string option"

record irplus_config =
  cfg_file :: string
  cfg_commands :: "(string \<times> cmd_cfg) list"

text \<open>The loop of \<^verbatim>\<open>__init__\<close> over the configured commands.\<close>

fun register_commands :: "(string \<times> cmd_cfg) list \<Rightarrow> irplus \<Rightarrow> irplus" where
  "register_commands [] self = self"
| "register_commands ((cmd, c) # rest) self =
     (let h0 = \<lparr>arguments = 0, extras = cmd, hname = cmd, hdescription = cmd,
                htype = cmd_type c\<rparr>;
          h1 = (case cmd_sequence c of None \<Rightarrow> h0 | Some s \<Rightarrow> h0\<lparr>extras := s\<rparr>);
          h2 = (case cmd_name c of None \<Rightarrow> h1 | Some n \<Rightarrow> h1\<lparr>hname := n\<rparr>);
          h3 = (case cmd_description c of None \<Rightarrow> h2 | Some d \<Rightarrow> h2\<lparr>hdescription := d\<rparr>);
          self1 = self\<lparr>COMMAND_HANDLER := AList.update cmd h3 (COMMAND_HANDLER self)\<rparr>;
          self2 = (if cmd_type c = 901 then self1\<lparr>cmd_on := Some cmd\<rparr> else self1);
          self3 = (if cmd_type c = 902 then self2\<lparr>cmd_off := Some cmd\<rparr> else self2)
      in register_commands rest self3)"

text \<open>
  \<^verbatim>\<open>__init__(server, commandfile)\<close>: \<open>files\<close> gives the IR table stored in a file
  (\<open>None\<close> when it cannot be opened), \<open>data\<close> is the parsed command file.
\<close>

definition irplus_init ::
  "(string \<Rightarrow> (string \<times> string) list option) \<Rightarrow> driver_null \<Rightarrow> string \<Rightarrow> irplus_config
     \<Rightarrow> py_error + irplus" where
  "irplus_init files base srv data =
     (case files (cfg_file data) of
        None \<Rightarrow> Inl (IOError (cfg_file data))
      | Some table \<Rightarrow>
          Inr (register_commands (cfg_commands data)
                 \<lparr>COMMAND_HANDLER = COMMAND_HANDLER base, power = power base,
                  server = srv, cmd_on = None, cmd_off = None, ircmds = table\<rparr>))"

text \<open>The answer to a GET: the status code, and whether the body parses as JSON.\<close>

record response =
  status_code :: int
  json_ok :: bool

text \<open>
  \<^verbatim>\<open>sendIr\<close> returns \<^verbatim>\<open>False\<close> (\<open>Some False\<close>) on a status other than 200 and
  falls off its end (\<open>None\<close>) otherwise. An unknown command prints a warning and then
  indexes the table all the same.
\<close>

definition sendIr ::
  "(string \<Rightarrow> response) \<Rightarrow> irplus \<Rightarrow> string \<Rightarrow> event list
     \<Rightarrow> (py_error + bool option) \<times> event list" where
  "sendIr net self command tr =
     (let tr1 = (if map_of (ircmds self) command = None
                 then tr @ [Print (''WARN: '' @ command @ '' is not a defined IR command'')]
                 else tr)
      in case map_of (ircmds self) command of
           None \<Rightarrow> (Inl (KeyError command), tr1)
         | Some ir \<Rightarrow>
             (let url = server self @ ''/write/'' @ ir;
                  r = net url;
                  tr2 = tr1 @ [HttpGet url]
              in if status_code r \<noteq> 200
                 then (Inr (Some False),
                       tr2 @ [Print (''ERROR: Driver was unable to execute '' @ url)])
                 else if json_ok r then (Inr None, tr2)
                 else (Inl (ValueError ''No JSON object could be decoded''), tr2)))"

text \<open>
  The loop of \<^verbatim>\<open>sendCommand\<close>. For an all-digit item the source evaluates
  \<^verbatim>\<open>time.sleep(int(cmd))\<close>; the module imports \<^verbatim>\<open>DriverNull\<close>, \<^verbatim>\<open>requests\<close>,
  \<^verbatim>\<open>base64\<close>, \<^verbatim>\<open>json\<close> and \<^verbatim>\<open>CommandType\<close> and never binds the name
  \<^verbatim>\<open>time\<close>, so the lookup of that name raises before anything else happens. The
  result of \<^verbatim>\<open>sendIr\<close> is dropped.
\<close>

fun send_sequence ::
  "(string \<Rightarrow> response) \<Rightarrow> irplus \<Rightarrow> string list \<Rightarrow> event list
     \<Rightarrow> (py_error + unit) \<times> event list" where
  "send_sequence net self [] tr = (Inr (), tr)"
| "send_sequence net self (cmd # seq) tr =
     (if isdigit cmd then (Inl (NameError ''time''), tr)
      else (case sendIr net self cmd tr of
              (Inl e, tr') \<Rightarrow> (Inl e, tr')
            | (Inr r, tr') \<Rightarrow> send_sequence net self seq tr'))"

definition sendCommand ::
  "(string \<Rightarrow> response) \<Rightarrow> irplus \<Rightarrow> string option \<Rightarrow> string \<Rightarrow> event list
     \<Rightarrow> (py_error + unit) \<times> event list" where
  "sendCommand net self zone command tr = send_sequence net self (split CHR '','' command) tr"

text \<open>\<^verbatim>\<open>self.COMMAND_HANDLER[cmd]["extras"]\<close> followed by \<^verbatim>\<open>sendCommand(None, ...)\<close>.\<close>

definition send_extras ::
  "(string \<Rightarrow> response) \<Rightarrow> irplus \<Rightarrow> string \<Rightarrow> event list \<Rightarrow> (py_error + unit) \<times> event list" where
  "send_extras net self cmd tr =
     (case map_of (COMMAND_HANDLER self) cmd of
        None \<Rightarrow> (Inl (KeyError cmd), tr)
      | Some h \<Rightarrow> sendCommand net self None (extras h) tr)"

definition setPower ::
  "(string \<Rightarrow> response) \<Rightarrow> irplus \<Rightarrow> bool \<Rightarrow> event list
     \<Rightarrow> (py_error + bool) \<times> irplus \<times> event list" where
  "setPower net self enable tr =
     (if power self = enable then (Inr True, self, tr)
      else
        (case (if enable \<and> cmd_on self \<noteq> None then send_extras net self (the (cmd_on self)) tr
               else if cmd_off self \<noteq> None then send_extras net self (the (cmd_off self)) tr
               else (Inr (), tr)) of
           (Inl e, tr') \<Rightarrow> (Inl e, self, tr')
         | (Inr u, tr') \<Rightarrow> (Inr True, self\<lparr>power := enable\<rparr>, tr')))"

section \<open>The Roku driver (src/driver\_roku.py)\<close>

text \<open>An element of the parsed XML answer: tag, attributes, text and children.\<close>

datatype xml = Elem (tag: string) (attrib: "(string \<times> string) list") (text_of: "string option")
  (children: "xml list")

text \<open>
  The application table maps an element's text, which is \<^verbatim>\<open>None\<close> for an empty
  element, to the application id. Python 2 leaves the order in which a dictionary is
  iterated open; the order of the list stands for it.
\<close>

record roku = driver_null +
  rk_server :: string
  home :: "int option"
  apps :: "(string option \<times> int) list"

definition roku_init :: "driver_null \<Rightarrow> string \<Rightarrow> roku" where
  "roku_init base srv =
     \<lparr>COMMAND_HANDLER = COMMAND_HANDLER base, power = power base,
      rk_server = ''http://'' @ srv @ '':8060/'', home = None, apps = []\<rparr>"

text \<open>\<^verbatim>\<open>int(branch.attrib["id"])\<close>.\<close>

definition attrib_id :: "xml \<Rightarrow> py_error + int" where
  "attrib_id b =
     (case map_of (attrib b) ''id'' of
        None \<Rightarrow> Inl (KeyError ''id'')
      | Some s \<Rightarrow> (case py_int s of None \<Rightarrow> Inl (ValueError s) | Some i \<Rightarrow> Inr i))"

text \<open>
  The loop of \<^verbatim>\<open>getApps\<close> over the children of the answer, threading
  \<^verbatim>\<open>self.home\<close> and \<^verbatim>\<open>result\<close>. The home id is kept when a later element raises.
\<close>

fun scan_apps ::
  "xml list \<Rightarrow> int option \<Rightarrow> (string option \<times> int) list
     \<Rightarrow> (py_error + (string option \<times> int) list) \<times> int option" where
  "scan_apps [] hm result = (Inr result, hm)"
| "scan_apps (b # bs) hm result =
     (if tag b \<noteq> ''app'' then scan_apps bs hm result
      else (case map_of (attrib b) ''type'' of
              None \<Rightarrow> (Inl (KeyError ''type''), hm)
            | Some ty \<Rightarrow>
                (case (if ty = ''menu''
                       then (case text_of b of
                               None \<Rightarrow> Inl (AttributeError ''lower'')
                             | Some t \<Rightarrow>
                                 if found_in ''home'' (lower t)
                                 then (case attrib_id b of Inl e \<Rightarrow> Inl e | Inr i \<Rightarrow> Inr (Some i))
                                 else Inr hm)
                       else Inr hm) of
                   Inl e \<Rightarrow> (Inl e, hm)
                 | Inr hm' \<Rightarrow>
                     if ty \<noteq> ''appl'' then scan_apps bs hm' result
                     else (case attrib_id b of
                             Inl e \<Rightarrow> (Inl e, hm')
                           | Inr i \<Rightarrow> scan_apps bs hm' (AList.update (text_of b) i result)))))"

text \<open>
  \<^verbatim>\<open>getApps\<close>: one GET of \<^verbatim>\<open>query/apps\<close>; \<open>net\<close> gives the parsed answer, or
  \<open>None\<close> when the body is not XML.
\<close>

definition getApps ::
  "(string \<Rightarrow> xml option) \<Rightarrow> roku \<Rightarrow> event list
     \<Rightarrow> (py_error + (string option \<times> int) list) \<times> roku \<times> event list" where
  "getApps net self tr =
     (let url = rk_server self @ ''query/apps'';
          tr1 = tr @ [HttpGet url]
      in case net url of
           None \<Rightarrow> (Inl ParseError, self, tr1)
         | Some tree \<Rightarrow>
             if tag tree \<noteq> ''apps'' then (Inr [], self, tr1)
             else (case scan_apps (children tree) (home self) [] of
                     (r, hm) \<Rightarrow> (r, self\<lparr>home := hm\<rparr>, tr1)))"

definition startApp :: "roku \<Rightarrow> int \<Rightarrow> event list \<Rightarrow> event list" where
  "startApp self appid tr = tr @ [HttpPost (rk_server self @ ''launch/'' @ show_int appid)]"

definition eventOff ::
  "(string \<Rightarrow> xml option) \<Rightarrow> roku \<Rightarrow> event list \<Rightarrow> (py_error + unit) \<times> roku \<times> event list" where
  "eventOff net self tr =
     (case (if home self = None
            then (case getApps net self tr of (r, self', tr') \<Rightarrow> (map_sum id (\<lambda>a. ()) r, self', tr'))
            else (Inr (), self, tr)) of
        (Inl e, self1, tr1) \<Rightarrow> (Inl e, self1, tr1)
      | (Inr u, self1, tr1) \<Rightarrow>
          (case home self1 of
             None \<Rightarrow> (Inr (), self1, tr1)
           | Some h \<Rightarrow> (Inr (), self1, startApp self1 h tr1)))"

text \<open>
  The search of the \<^verbatim>\<open>app\<close> branch: the id of the first application whose lowered
  name contains \<open>k\<close>.
\<close>

fun find_app :: "string \<Rightarrow> (string option \<times> int) list \<Rightarrow> py_error + int option" where
  "find_app k [] = Inr None"
| "find_app k ((key, i) # rest) =
     (case key of
        None \<Rightarrow> Inl (AttributeError ''lower'')
      | Some s \<Rightarrow> if found_in (lower s) k then Inr (Some i) else find_app k rest)"

text \<open>
  \<^verbatim>\<open>eventExtras\<close>. The application list is fetched first. In the \<^verbatim>\<open>appid\<close>
  branch the source indexes \<^verbatim>\<open>extras\<close> with the bare name \<^verbatim>\<open>appid\<close>, which is
  bound neither in the function (\<^verbatim>\<open>self\<close>, \<^verbatim>\<open>extras\<close>, \<^verbatim>\<open>k\<close>, \<^verbatim>\<open>key\<close>,
  \<^verbatim>\<open>i\<close>) nor in the module, so the lookup of the name raises.
\<close>

definition eventExtras ::
  "(string \<Rightarrow> xml option) \<Rightarrow> roku \<Rightarrow> (string \<times> string) list \<Rightarrow> event list
     \<Rightarrow> (py_error + unit) \<times> roku \<times> event list" where
  "eventExtras net self extras_map tr =
     (case getApps net self tr of
        (Inl e, self1, tr1) \<Rightarrow> (Inl e, self1, tr1)
      | (Inr found, self1, tr1) \<Rightarrow>
          (let self2 = self1\<lparr>apps := found\<rparr>
           in case map_of extras_map ''app'' of
                Some a \<Rightarrow>
                  (case find_app (lower a) (apps self2) of
                     Inl e \<Rightarrow> (Inl e, self2, tr1)
                   | Inr None \<Rightarrow> (Inr (), self2, tr1)
                   | Inr (Some i) \<Rightarrow> (Inr (), self2, startApp self2 i tr1))
              | None \<Rightarrow>
                  if map_of extras_map ''appid'' \<noteq> None
                  then (Inl (NameError ''appid''), self2, tr1)
                  else (Inr (), self2, tr1)))"




section \<open>Concrete drivers and answers\<close>

text \<open>
  The configuration given as the example in the docstring of the IR driver module: an
  \<^verbatim>\<open>on\<close> command of type 901 and an \<^verbatim>\<open>off\<close> command of type 902 with the
  sequence \<^verbatim>\<open>off,200,off\<close>.
\<close>

definition docstring_config :: irplus_config where
  "docstring_config =
     \<lparr>cfg_file = ''projector.json'',
      cfg_commands =
        [(''on'', \<lparr>cmd_type = 901, cmd_sequence = None, cmd_name = None,
                   cmd_description = None\<rparr>),
         (''off'', \<lparr>cmd_type = 902, cmd_sequence = Some ''off,200,off'', cmd_name = None,
                    cmd_description = None\<rparr>)]\<rparr>"

text \<open>A configuration with one command that is neither a power-on nor a power-off.\<close>

definition plain_config :: irplus_config where
  "plain_config =
     \<lparr>cfg_file = ''projector.json'',
      cfg_commands =
        [(''menu'', \<lparr>cmd_type = 1, cmd_sequence = None, cmd_name = None,
                     cmd_description = None\<rparr>)]\<rparr>"

definition ir_files :: "string \<Rightarrow> (string \<times> string) list option" where
  "ir_files f =
     (if f = ''projector.json''
      then Some [(''on'', ''A1''), (''off'', ''A2''), (''menu'', ''A3'')]
      else None)"

definition fresh_base :: driver_null where
  "fresh_base = \<lparr>COMMAND_HANDLER = [], power = False\<rparr>"

definition net_ok :: "string \<Rightarrow> response" where
  "net_ok url = \<lparr>status_code = 200, json_ok = True\<rparr>"

definition net_down :: "string \<Rightarrow> response" where
  "net_down url = \<lparr>status_code = 500, json_ok = False\<rparr>"

text \<open>A device that answers 200 with a body that is not JSON.\<close>

definition net_nojson :: "string \<Rightarrow> response" where
  "net_nojson url = \<lparr>status_code = 200, json_ok = False\<rparr>"

text \<open>The projector of the driver table, built from the docstring's configuration.\<close>

definition projector_off :: irplus where
  "projector_off =
     register_commands (cfg_commands docstring_config)
       \<lparr>COMMAND_HANDLER = [], power = False, server = AV @ '':5001'',
        cmd_on = None, cmd_off = None,
        ircmds = [(''on'', ''A1''), (''off'', ''A2''), (''menu'', ''A3'')]\<rparr>"

definition projector_on :: irplus where
  "projector_on = projector_off\<lparr>power := True\<rparr>"

text \<open>The Roku of the driver table and an answer to \<^verbatim>\<open>query/apps\<close>.\<close>

definition roku_box :: roku where
  "roku_box = roku_init fresh_base ''roku.sfo.sensenet.nu''"

definition apps_answer :: xml where
  "apps_answer =
     Elem ''apps'' [] None
       [Elem ''app'' [(''id'', ''12''), (''type'', ''appl'')] (Some ''Netflix'') [],
        Elem ''app'' [(''id'', ''13''), (''type'', ''appl'')] (Some ''Amazon Video'') []]"

definition roku_net :: "string \<Rightarrow> xml option" where
  "roku_net url = Some apps_answer"


text \<open>What \<^verbatim>\<open>__init__\<close> builds from \<open>plain_config\<close>.\<close>

definition plain_driver :: irplus where
  "plain_driver =
     \<lparr>COMMAND_HANDLER =
        [(''menu'', \<lparr>arguments = 0, extras = ''menu'', hname = ''menu'',
                     hdescription = ''menu'', htype = 1\<rparr>)],
      power = False, server = AV @ '':5001'',
      cmd_on = None, cmd_off = None,
      ircmds = [(''on'', ''A1''), (''off'', ''A2''), (''menu'', ''A3'')]\<rparr>"

section \<open>The catalog and the router\<close>

text \<open>
  The configuration tables are consumed by a catalog and a router whose source is not
  available. Their operations are written here from the specification, sections 3,
  4.2, 4.3 and 4.4, over the tables of the source. Driver calls are taken to succeed:
  the failure kinds that arise below the router are listed among the errors and are
  never produced.
\<close>

text \<open>Modelled from the spec: the capability class of a route or activation (section 3, route).\<close>

datatype cap_class = Audio | AudioVideo

text \<open>
  Modelled from the spec: a concrete zone, that is a zone id and, for a sub-zone of a
  virtual zone, the sub-zone's name (the specification writes it \<^verbatim>\<open>zone/sub-zone\<close>).
  A request names a zone in the same way; without a sub-zone name a virtual zone is
  resolved by the catalog.
\<close>

type_synonym zone_key = "string \<times> string option"

text \<open>Modelled from the spec: the failure kinds of section 7, with their identifiers.\<close>

datatype error =
    UnknownScene string
  | UnknownZone string
  | UnknownDriver string
  | NoDefaultSubzone string
  | CapabilityMismatch
  | NoRouteDefined
  | NoMatchingRoute
  | DriverConflict string zone_key
  | UnknownCommand string string
  | UnsupportedOperation string
  | DriverUnreachable string

text \<open>
  Modelled from the spec: the catalog and the driver registry (section 2), holding the
  four tables of the source.
\<close>

record catalog =
  drivers :: "(string \<times> driver_decl) list"
  routing :: "(string \<times> (string \<times> route list) list) list"
  scenes :: "(string \<times> scene) list"
  zones :: "(string \<times> zone) list"

text \<open>Modelled from the spec: the catalog made of the tables of \<^verbatim>\<open>SystemSetup\<close>.\<close>

definition CATALOG :: catalog where
  "CATALOG = \<lparr>drivers = DRIVER_TABLE, routing = ROUTING_TABLE, scenes = SCENE_TABLE,
              zones = ZONE_TABLE\<rparr>"

text \<open>
  Modelled from the spec: the allocation table (section 3, allocation entry). Per zone:
  the active scene, the capability class, which of its capabilities are still active,
  and the drivers held. Per virtual zone: the active sub-zone. The reference count and
  the owners of a driver are computed from the zones' held sets, which is the invariant
  the specification asks for. The power flag of every driver and the calls issued to
  the drivers are part of the state.
\<close>

record zone_alloc =
  za_scene :: string
  za_class :: cap_class
  za_audio_active :: bool
  za_video_active :: bool
  za_held :: "string list"

text \<open>
  Modelled from the spec: the calls the router issues to drivers (sections 4.1 and 6):
  power transitions, extras, a named command with the zone index, and the pause of a
  digit-only item.
\<close>

datatype call =
    PowerOn string
  | PowerOff string
  | ApplyExtras string string
  | Send string string "string option"
  | Delay nat

text \<open>
  Modelled from the spec: the live state (section 2, allocation table and power
  manager): the zones' entries, the active sub-zone of each virtual zone, the drivers
  that are powered, and the calls issued so far.
\<close>

record alloc =
  zone_allocs :: "(zone_key \<times> zone_alloc) list"
  active_sub :: "(string \<times> string) list"
  powered :: "string list"
  issued :: "call list"

text \<open>Modelled from the spec: the state at startup, nothing allocated and nothing powered.\<close>

definition empty_alloc :: alloc where
  "empty_alloc = \<lparr>zone_allocs = [], active_sub = [], powered = [], issued = []\<rparr>"

text \<open>
  Modelled from the spec: the owners and the reference count of a driver (section 3),
  absent from the sources.
\<close>

definition holders :: "alloc \<Rightarrow> string \<Rightarrow> zone_key list" where
  "holders st d = map fst (filter (\<lambda>(k, a). d \<in> set (za_held a)) (zone_allocs st))"

text \<open>Modelled from the spec: the reference count of a driver (section 3), the number of zones holding it.\<close>

definition referenceCount :: "alloc \<Rightarrow> string \<Rightarrow> nat" where
  "referenceCount st d = length (holders st d)"

text \<open>
  Modelled from the spec: a driver reference of a zone is a driver id plus an optional
  sub-index after a colon (section 3, zone; the zone table's \<^verbatim>\<open>receiver:1\<close>).
\<close>

definition ref_driver :: "string \<Rightarrow> string" where
  "ref_driver r = takeWhile (\<lambda>c. c \<noteq> CHR '':'') r"

text \<open>Modelled from the spec: the optional sub-index of a driver reference (section 3, zone).\<close>

definition ref_index :: "string \<Rightarrow> string option" where
  "ref_index r =
     (case dropWhile (\<lambda>c. c \<noteq> CHR '':'') r of [] \<Rightarrow> None | c # idx \<Rightarrow> Some idx)"

text \<open>
  Modelled from the spec: \<^verbatim>\<open>resolveConcreteZone\<close> of the catalog (section 4.2), absent
  from the sources. A virtual zone gives its active sub-zone if the allocation state
  records one, else its declared default, else \<^verbatim>\<open>NoDefaultSubzone\<close>; a simple zone
  gives itself. A sub-zone name that the zone does not declare is an unknown zone.
\<close>

definition resolveConcreteZone ::
  "catalog \<Rightarrow> alloc \<Rightarrow> string \<Rightarrow> error + (string option \<times> simple_zone)" where
  "resolveConcreteZone cat st z =
     (case map_of (zones cat) z of
        None \<Rightarrow> Inl (UnknownZone z)
      | Some (Simple sz) \<Rightarrow> Inr (None, sz)
      | Some (Virtual nm dflt subs hint) \<Rightarrow>
          (case (case map_of (active_sub st) z of Some a \<Rightarrow> Some a | None \<Rightarrow> dflt) of
             None \<Rightarrow> Inl (NoDefaultSubzone z)
           | Some s \<Rightarrow>
               (case map_of subs s of
                  None \<Rightarrow> Inl (UnknownZone (z @ ''/'' @ s))
                | Some sz \<Rightarrow> Inr (Some s, sz))))"

text \<open>
  Modelled from the spec: step 1 of \<^verbatim>\<open>activate\<close> (section 4.3) for a request that may
  name a sub-zone, as the scenarios of section 8 do. A named sub-zone must be declared
  by a virtual zone; without a name the catalog resolves the zone.
\<close>

definition resolve_request ::
  "catalog \<Rightarrow> alloc \<Rightarrow> zone_key \<Rightarrow> error + (zone_key \<times> simple_zone)" where
  "resolve_request cat st zr =
     (case snd zr of
        None \<Rightarrow>
          (case resolveConcreteZone cat st (fst zr) of
             Inl e \<Rightarrow> Inl e
           | Inr (sub, sz) \<Rightarrow> Inr ((fst zr, sub), sz))
      | Some s \<Rightarrow>
          (case map_of (zones cat) (fst zr) of
             None \<Rightarrow> Inl (UnknownZone (fst zr))
           | Some (Simple sz) \<Rightarrow> Inl (UnknownZone (fst zr @ ''/'' @ s))
           | Some (Virtual nm dflt subs hint) \<Rightarrow>
               (case map_of subs s of
                  None \<Rightarrow> Inl (UnknownZone (fst zr @ ''/'' @ s))
                | Some sz \<Rightarrow> Inr ((fst zr, Some s), sz))))"

text \<open>Modelled from the spec: the simple zone behind a concrete zone key (section 3).\<close>

definition concrete_zone :: "catalog \<Rightarrow> zone_key \<Rightarrow> simple_zone option" where
  "concrete_zone cat k =
     (case map_of (zones cat) (fst k) of
        None \<Rightarrow> None
      | Some (Simple sz) \<Rightarrow> (if snd k = None then Some sz else None)
      | Some (Virtual nm dflt subs hint) \<Rightarrow>
          (case snd k of None \<Rightarrow> None | Some s \<Rightarrow> map_of subs s))"

text \<open>
  Modelled from the spec: step 2 of \<^verbatim>\<open>activate\<close>, the capability class of a scene
  on a zone.
\<close>

definition capability_class :: "scene \<Rightarrow> simple_zone \<Rightarrow> error + cap_class" where
  "capability_class sc sz =
     (if scene_video sc \<and> zone_video sz \<noteq> None then Inr AudioVideo
      else if scene_audio sc \<and> zone_audio sz \<noteq> None then Inr Audio
      else Inl CapabilityMismatch)"

text \<open>Modelled from the spec: the key of a capability class in the routing table of the source.\<close>

definition class_key :: "cap_class \<Rightarrow> string" where
  "class_key c = (case c of Audio \<Rightarrow> ''audio'' | AudioVideo \<Rightarrow> ''audio+video'')"

text \<open>
  Modelled from the spec: \<^verbatim>\<open>routesFor\<close> (section 4.2). The routing table of the
  source is keyed by the scene's producing driver.
\<close>

definition routesFor :: "catalog \<Rightarrow> scene \<Rightarrow> cap_class \<Rightarrow> route list" where
  "routesFor cat sc c =
     (case map_of (routing cat) (scene_driver sc) of
        None \<Rightarrow> []
      | Some classes \<Rightarrow> (case map_of classes (class_key c) of None \<Rightarrow> [] | Some rs \<Rightarrow> rs))"

text \<open>
  Modelled from the spec: step 4 of \<^verbatim>\<open>activate\<close>. The drivers a zone designates for a
  class, and the first candidate route whose driver keys contain them all.
\<close>

definition designated :: "cap_class \<Rightarrow> simple_zone \<Rightarrow> string list" where
  "designated c sz =
     (case c of
        Audio \<Rightarrow> map ref_driver (case zone_audio sz of None \<Rightarrow> [] | Some r \<Rightarrow> [r])
      | AudioVideo \<Rightarrow>
          map ref_driver ((case zone_audio sz of None \<Rightarrow> [] | Some r \<Rightarrow> [r]) @
                          (case zone_video sz of None \<Rightarrow> [] | Some r \<Rightarrow> [r])))"

text \<open>
  Modelled from the spec: step 4 of \<^verbatim>\<open>activate\<close>, a candidate qualifies when every
  designated driver is one of its keys.
\<close>

definition route_matches :: "string list \<Rightarrow> route \<Rightarrow> bool" where
  "route_matches need r = list_all (\<lambda>d. d \<in> set (map fst r)) need"

text \<open>
  Modelled from the spec: steps 3 and 4 of \<^verbatim>\<open>activate\<close>: no candidate at all is
  \<^verbatim>\<open>NoRouteDefined\<close>, otherwise the first qualifying candidate in declaration order is
  chosen, and \<^verbatim>\<open>NoMatchingRoute\<close> if none qualifies.
\<close>

definition selectRoute :: "route list \<Rightarrow> cap_class \<Rightarrow> simple_zone \<Rightarrow> error + route" where
  "selectRoute candidates c sz =
     (if candidates = [] then Inl NoRouteDefined
      else (case find (route_matches (designated c sz)) candidates of
              None \<Rightarrow> Inl NoMatchingRoute
            | Some r \<Rightarrow> Inr r))"

text \<open>
  Modelled from the spec: step 5 of \<^verbatim>\<open>activate\<close>, the required drivers: the route's
  driver keys in declaration order, then the scene's producing driver.
\<close>

definition requiredDrivers :: "route \<Rightarrow> scene \<Rightarrow> string list" where
  "requiredDrivers r sc =
     map fst r @ (if scene_driver sc \<in> set (map fst r) then [] else [scene_driver sc])"

text \<open>
  Modelled from the spec: what steps 1 to 5 of \<^verbatim>\<open>activate\<close> determine: the concrete
  zone, the scene, the class, the chosen route and the required drivers.
\<close>

record plan =
  p_key :: zone_key
  p_zone :: simple_zone
  p_scene_id :: string
  p_scene :: scene
  p_class :: cap_class
  p_route :: route
  p_required :: "string list"

text \<open>
  Modelled from the spec: steps 1 to 5 of \<^verbatim>\<open>activate\<close>, which read the state and the
  catalog only. A required driver that the registry does not declare is
  \<^verbatim>\<open>UnknownDriver\<close> (section 4.1, \<^verbatim>\<open>get\<close>), found before anything is changed.
\<close>

definition plan_activation :: "catalog \<Rightarrow> alloc \<Rightarrow> zone_key \<Rightarrow> string \<Rightarrow> error + plan" where
  "plan_activation cat st zr sid =
     (case resolve_request cat st zr of
        Inl e \<Rightarrow> Inl e
      | Inr (k, sz) \<Rightarrow>
          (case map_of (scenes cat) sid of
             None \<Rightarrow> Inl (UnknownScene sid)
           | Some sc \<Rightarrow>
               (case capability_class sc sz of
                  Inl e \<Rightarrow> Inl e
                | Inr c \<Rightarrow>
                    (case selectRoute (routesFor cat sc c) c sz of
                       Inl e \<Rightarrow> Inl e
                     | Inr r \<Rightarrow>
                         (case find (\<lambda>d. map_of (drivers cat) d = None) (requiredDrivers r sc) of
                            Some d \<Rightarrow> Inl (UnknownDriver d)
                          | None \<Rightarrow>
                              Inr \<lparr>p_key = k, p_zone = sz, p_scene_id = sid, p_scene = sc,
                                   p_class = c, p_route = r,
                                   p_required = requiredDrivers r sc\<rparr>)))))"

text \<open>
  Modelled from the spec: step 6 of \<^verbatim>\<open>activate\<close>. The required drivers are inspected
  in order; the first one held by another zone is the conflict, reported with its first
  owner.
\<close>

fun check_conflicts :: "alloc \<Rightarrow> zone_key \<Rightarrow> string list \<Rightarrow> (string \<times> zone_key) option" where
  "check_conflicts st k [] = None"
| "check_conflicts st k (d # ds) =
     (case filter (\<lambda>k'. k' \<noteq> k) (holders st d) of
        [] \<Rightarrow> check_conflicts st k ds
      | owner # others \<Rightarrow> Some (d, owner))"

text \<open>
  Modelled from the spec: the override branch of step 6. Every required driver is taken
  out of the held set of every other zone; a capability of such a zone whose designated
  driver was taken is marked inactive.
\<close>

definition release :: "catalog \<Rightarrow> string list \<Rightarrow> zone_key \<Rightarrow> zone_alloc \<Rightarrow> zone_alloc" where
  "release cat ds k a =
     (let lost = filter (\<lambda>d. d \<in> set ds) (za_held a);
          audio_ref = (case concrete_zone cat k of None \<Rightarrow> None | Some sz \<Rightarrow> zone_audio sz);
          video_ref = (case concrete_zone cat k of None \<Rightarrow> None | Some sz \<Rightarrow> zone_video sz)
      in a\<lparr>za_held := filter (\<lambda>d. d \<notin> set ds) (za_held a),
           za_audio_active :=
             (za_audio_active a \<and>
              (case audio_ref of None \<Rightarrow> True | Some r \<Rightarrow> ref_driver r \<notin> set lost)),
           za_video_active :=
             (za_video_active a \<and>
              (case video_ref of None \<Rightarrow> True | Some r \<Rightarrow> ref_driver r \<notin> set lost))\<rparr>)"

text \<open>
  Modelled from the spec: the override branch of step 6 over the whole table; the
  entry of the requesting zone is left alone.
\<close>

definition release_others :: "catalog \<Rightarrow> zone_key \<Rightarrow> string list \<Rightarrow> alloc \<Rightarrow> alloc" where
  "release_others cat k ds st =
     st\<lparr>zone_allocs :=
          map (\<lambda>(k', a). if k' = k then (k', a) else (k', release cat ds k' a)) (zone_allocs st)\<rparr>"

text \<open>Modelled from the spec: the idempotent power transitions of section 4.4.\<close>

definition power_on :: "string \<Rightarrow> alloc \<Rightarrow> alloc" where
  "power_on d st =
     (if d \<in> set (powered st) then st
      else st\<lparr>powered := powered st @ [d], issued := issued st @ [PowerOn d]\<rparr>)"

text \<open>Modelled from the spec: the idempotent power-off of section 4.4.\<close>

definition power_off :: "string \<Rightarrow> alloc \<Rightarrow> alloc" where
  "power_off d st =
     (if d \<in> set (powered st)
      then st\<lparr>powered := removeAll d (powered st), issued := issued st @ [PowerOff d]\<rparr>
      else st)"

text \<open>
  Modelled from the spec: the power-down sweep (section 4.4): every powered driver that
  no zone references is switched off.
\<close>

definition sweep :: "alloc \<Rightarrow> alloc" where
  "sweep st = fold power_off (filter (\<lambda>d. referenceCount st d = 0) (powered st)) st"

text \<open>
  Modelled from the spec: the command execution of step 7. The command lists of the
  route are run in declaration order; an item made of digits only is a pause of that
  many milliseconds, any other item is sent to the driver, with the sub-index under
  which the zone refers to that driver.
\<close>

definition digits_value :: "string \<Rightarrow> nat" where
  "digits_value s = foldl (\<lambda>acc c. 10 * acc + digit_val c) 0 s"

text \<open>
  Modelled from the spec: the zone index passed to \<^verbatim>\<open>send\<close> (section 4.1), the
  sub-index under which the zone refers to the driver.
\<close>

definition zone_index :: "simple_zone \<Rightarrow> string \<Rightarrow> string option" where
  "zone_index sz d =
     (case find (\<lambda>r. ref_driver r = d)
             ((case zone_audio sz of None \<Rightarrow> [] | Some r \<Rightarrow> [r]) @
              (case zone_video sz of None \<Rightarrow> [] | Some r \<Rightarrow> [r])) of
        None \<Rightarrow> None
      | Some r \<Rightarrow> ref_index r)"

text \<open>
  Modelled from the spec: the calls of a route (step 7), driver by driver in
  declaration order; a digit-only item is a pause and is not sent.
\<close>

definition route_calls :: "simple_zone \<Rightarrow> route \<Rightarrow> call list" where
  "route_calls sz r =
     concat (map (\<lambda>(d, cmds).
       map (\<lambda>c. if isdigit c then Delay (digits_value c) else Send d c (zone_index sz d)) cmds) r)"

text \<open>
  Modelled from the spec: the commit of step 7. Required drivers that no zone
  references are powered on, the extras (those of the request, else those the scene
  declares) go to the producing driver, the route's commands are run, and the zone's
  entry and the active sub-zone are written.
\<close>

definition commit :: "plan \<Rightarrow> string option \<Rightarrow> alloc \<Rightarrow> alloc" where
  "commit p ex st =
     (let st1 = fold power_on (filter (\<lambda>d. referenceCount st d = 0) (p_required p)) st;
          st2 = (case (case ex of Some e \<Rightarrow> Some e | None \<Rightarrow> scene_driver_extras (p_scene p)) of
                   None \<Rightarrow> st1
                 | Some e \<Rightarrow>
                     st1\<lparr>issued := issued st1 @ [ApplyExtras (scene_driver (p_scene p)) e]\<rparr>);
          st3 = st2\<lparr>issued := issued st2 @ route_calls (p_zone p) (p_route p)\<rparr>;
          entry = \<lparr>za_scene = p_scene_id p, za_class = p_class p,
                   za_audio_active = (zone_audio (p_zone p) \<noteq> None),
                   za_video_active = (p_class p = AudioVideo), za_held = p_required p\<rparr>
      in st3\<lparr>zone_allocs := AList.update (p_key p) entry (zone_allocs st3),
             active_sub :=
               (case snd (p_key p) of
                  None \<Rightarrow> active_sub st3
                | Some s \<Rightarrow> AList.update (fst (p_key p)) s (active_sub st3))\<rparr>)"

text \<open>
  Modelled from the spec: \<^verbatim>\<open>activate\<close> (section 4.3, steps 1 to 9). A failure
  returns the state it was given. Without override the first conflict of step 6 fails
  the call; with override the required drivers are released from the other zones. The
  result of a success is the capability class and the driver set.
\<close>

definition activate ::
  "catalog \<Rightarrow> alloc \<Rightarrow> zone_key \<Rightarrow> string \<Rightarrow> string option \<Rightarrow> bool
     \<Rightarrow> (error + cap_class \<times> string list) \<times> alloc" where
  "activate cat st zr sid ex override =
     (case plan_activation cat st zr sid of
        Inl e \<Rightarrow> (Inl e, st)
      | Inr p \<Rightarrow>
          (case (if override then None else check_conflicts st (p_key p) (p_required p)) of
             Some (d, owner) \<Rightarrow> (Inl (DriverConflict d owner), st)
           | None \<Rightarrow>
               (let st1 = (if override then release_others cat (p_key p) (p_required p) st
                           else st)
                in (Inr (p_class p, p_required p), sweep (commit p ex st1)))))"

text \<open>
  Modelled from the spec: \<^verbatim>\<open>deactivate\<close> (section 4.3). The zone's entry is removed,
  the active sub-zone of a virtual zone is forgotten when it is the one deactivated,
  and the sweep runs. It always succeeds.
\<close>

definition deactivate :: "catalog \<Rightarrow> alloc \<Rightarrow> zone_key \<Rightarrow> alloc" where
  "deactivate cat st zr =
     (let k = (case resolve_request cat st zr of Inl e \<Rightarrow> zr | Inr (k, sz) \<Rightarrow> k)
      in sweep (st\<lparr>zone_allocs := AList.delete k (zone_allocs st),
                   active_sub :=
                     (if map_of (active_sub st) (fst k) = snd k
                      then AList.delete (fst k) (active_sub st)
                      else active_sub st)\<rparr>))"

text \<open>Modelled from the spec: \<^verbatim>\<open>status\<close> (section 6).\<close>

definition status :: "catalog \<Rightarrow> alloc \<Rightarrow> zone_key \<Rightarrow> zone_alloc option" where
  "status cat st zr =
     (case resolve_request cat st zr of
        Inl e \<Rightarrow> None
      | Inr (k, sz) \<Rightarrow> map_of (zone_allocs st) k)"

text \<open>
  Modelled from the spec: the requests the router serves (section 6), and the state
  after one of them.
\<close>

datatype request =
    Activate zone_key string "string option" bool
  | Deactivate zone_key

text \<open>Modelled from the spec: the state after a request (section 6).\<close>

fun step :: "catalog \<Rightarrow> alloc \<Rightarrow> request \<Rightarrow> alloc" where
  "step cat st (Activate zr sid ex override) = snd (activate cat st zr sid ex override)"
| "step cat st (Deactivate zr) = deactivate cat st zr"

text \<open>
  Modelled from the spec: the requests of section 8 that can end the activity of
  sub-zone \<open>a\<close> of zone \<open>z\<close>: a deactivation of \<open>z\<close>, or an activation that names
  another sub-zone of \<open>z\<close>.
\<close>

fun ends_subzone :: "string \<Rightarrow> string \<Rightarrow> request \<Rightarrow> bool" where
  "ends_subzone z a (Activate zr sid ex override) =
     (fst zr = z \<and> snd zr \<noteq> None \<and> snd zr \<noteq> Some a)"
| "ends_subzone z a (Deactivate zr) = (fst zr = z)"

text \<open>The state after the scene \<^verbatim>\<open>netflix\<close> was activated on the sub-zone \<^verbatim>\<open>tv\<close>.\<close>

definition tv_netflix :: alloc where
  "tv_netflix = snd (activate CATALOG empty_alloc (''zone1'', Some ''tv'') ''netflix'' None False)"

text \<open>A catalog whose only zone is virtual and declares no default sub-zone.\<close>

definition no_default_catalog :: catalog where
  "no_default_catalog =
     \<lparr>drivers = DRIVER_TABLE, routing = ROUTING_TABLE, scenes = SCENE_TABLE,
      zones =
        [(''hall'',
          Virtual ''Hall'' None
            [(''tv'', \<lparr>zone_name = ''TV'', zone_audio = Some ''receiver:1'',
                       zone_video = Some ''tv'', zone_ux_hint = ''''\<rparr>)]
            '''')]\<rparr>"

text \<open>
  The scene \<^verbatim>\<open>netflix\<close> and the two sub-zones of \<^verbatim>\<open>zone1\<close>, as the tables hold
  them, and what steps 1 to 5 give for \<^verbatim>\<open>netflix\<close> on either sub-zone.
\<close>

definition netflix_scene :: scene where
  "netflix_scene =
     \<lparr>scene_driver = ''roku'', scene_driver_extras = Some ''app=netflix'',
      scene_name = ''NetFlix'', scene_description = ''Watch movies and TV series'',
      scene_audio = True, scene_video = True,
      scene_ux_hint = ''category=video,icon=netflix''\<rparr>"

definition tv_subzone :: simple_zone where
  "tv_subzone =
     \<lparr>zone_name = ''TV'', zone_audio = Some ''receiver:1'', zone_video = Some ''tv'',
      zone_ux_hint = ''''\<rparr>"

definition projector_subzone :: simple_zone where
  "projector_subzone =
     \<lparr>zone_name = ''Cinema'', zone_audio = Some ''receiver:1'',
      zone_video = Some ''projector'', zone_ux_hint = ''''\<rparr>"

definition netflix_tv_plan :: plan where
  "netflix_tv_plan =
     \<lparr>p_key = (''zone1'', Some ''tv''), p_zone = tv_subzone, p_scene_id = ''netflix'',
      p_scene = netflix_scene, p_class = AudioVideo,
      p_route = [(''tv'', [''input-hdmi1'']), (''receiver'', [''input-dvd''])],
      p_required = [''tv'', ''receiver'', ''roku'']\<rparr>"

definition netflix_projector_plan :: plan where
  "netflix_projector_plan =
     \<lparr>p_key = (''zone1'', Some ''projector''), p_zone = projector_subzone,
      p_scene_id = ''netflix'', p_scene = netflix_scene, p_class = AudioVideo,
      p_route = [(''projector'', []), (''receiver'', [''input-dvd'']), (''screen'', [])],
      p_required = [''projector'', ''receiver'', ''screen'', ''roku'']\<rparr>"

text \<open>The state after the scene \<^verbatim>\<open>netflix\<close> was activated on the sub-zone \<^verbatim>\<open>projector\<close>.\<close>

definition projector_netflix :: alloc where
  "projector_netflix =
     snd (activate CATALOG empty_alloc (''zone1'', Some ''projector'') ''netflix'' None False)"


section \<open>Properties of the drivers\<close>

subsection \<open>The concrete drivers\<close>

lemma projector_off_eq:
  "projector_off =
     \<lparr>COMMAND_HANDLER =
        [(''on'', \<lparr>arguments = 0, extras = ''on'', hname = ''on'', hdescription = ''on'',
                   htype = 901\<rparr>),
         (''off'', \<lparr>arguments = 0, extras = ''off,200,off'', hname = ''off'',
                    hdescription = ''off'', htype = 902\<rparr>)],
      power = False, server = ''http://raspberry.sfo.sensenet.nu:5001'',
      cmd_on = Some ''on'', cmd_off = Some ''off'',
      ircmds = [(''on'', ''A1''), (''off'', ''A2''), (''menu'', ''A3'')]\<rparr>"
  by (simp add: projector_off_def docstring_config_def AV_def)

lemma projector_init:
  "irplus_init ir_files fresh_base (AV @ '':5001'') docstring_config = Inr projector_off"
  by (simp add: irplus_init_def ir_files_def fresh_base_def projector_off_def docstring_config_def)

lemma plain_init:
  "irplus_init ir_files fresh_base (AV @ '':5001'') plain_config = Inr plain_driver"
  by (simp add: irplus_init_def ir_files_def fresh_base_def plain_config_def plain_driver_def)

lemma split_off_200_off: "split CHR '','' ''off,200,off'' = [''off'', ''200'', ''off'']"
  by simp

lemma isdigit_200: "isdigit ''200''" "\<not> isdigit ''off''"
  by (simp_all add: isdigit_def is_digit_char_def)

lemma sendIr_off:
  "sendIr net_ok projector_off ''off'' tr =
     (Inr None, tr @ [HttpGet ''http://raspberry.sfo.sensenet.nu:5001/write/A2''])"
  by (simp add: sendIr_def projector_off_eq net_ok_def)

lemma getApps_roku_box:
  "getApps roku_net roku_box [] =
     (Inr [(Some ''Netflix'', 12), (Some ''Amazon Video'', 13)], roku_box,
      [HttpGet ''http://roku.sfo.sensenet.nu:8060/query/apps''])"
  by (simp add: getApps_def roku_net_def apps_answer_def roku_box_def roku_init_def fresh_base_def
        attrib_id_def py_int_def isdigit_def is_digit_char_def is_space_char_def digit_val_def)

subsection \<open>Delay items of a command sequence\<close>

text \<open>
  A sequence that holds an all-digit item never runs to its end: whatever the device
  answers, the call ends in an exception.
\<close>

lemma send_sequence_digit:
  "list_ex isdigit seq \<Longrightarrow> \<exists>e tr'. send_sequence net self seq tr = (Inl e, tr')"
proof (induction seq arbitrary: tr)
  case Nil
  then show ?case by simp
next
  case (Cons cmd seq)
  show ?case
  proof (cases "isdigit cmd")
    case True
    then show ?thesis by simp
  next
    case False
    with Cons.prems have rest: "list_ex isdigit seq" by simp
    obtain r tr1 where s: "sendIr net self cmd tr = (r, tr1)"
      by (cases "sendIr net self cmd tr")
    show ?thesis
    proof (cases r)
      case (Inl e)
      with s False show ?thesis by simp
    next
      case (Inr v)
      with s False Cons.IH [OF rest, of tr1] show ?thesis by simp
    qed
  qed
qed

text \<open>
  C3. A command item made of digits only is meant to pause the sequence for that many
  milliseconds and then let the remaining items go out. On the docstring's own sequence
  \<^verbatim>\<open>off,200,off\<close> the driver sends the first \<^verbatim>\<open>off\<close>, then raises NameError at the
  item \<^verbatim>\<open>200\<close>: there is no pause, and the second \<^verbatim>\<open>off\<close> is never sent.
\<close>

theorem sendCommand_delay_raises:
  "sendCommand net_ok projector_off None ''off,200,off'' [] =
     (Inl (NameError ''time''), [HttpGet ''http://raspberry.sfo.sensenet.nu:5001/write/A2''])"
  by (simp add: sendCommand_def split_off_200_off isdigit_200 sendIr_off)

subsection \<open>Power\<close>

text \<open>
  C4 (as amended). Calling \<^verbatim>\<open>setPower(e)\<close> on an IR driver whose power flag is
  already \<open>e\<close> sends nothing, leaves the driver as it is and returns \<^verbatim>\<open>True\<close>: the
  value returned is a success flag.
\<close>

theorem setPower_same_state:
  "power self = enable \<Longrightarrow> setPower net self enable tr = (Inr True, self, tr)"
  by (simp add: setPower_def)

theorem setPower_same_state_witness:
  "power projector_on = True \<and>
   setPower net_down projector_on True [] = (Inr True, projector_on, [])"
proof -
  have p: "power projector_on = True" by (simp add: projector_on_def)
  from setPower_same_state [OF p, of net_down "[]"] p show ?thesis by simp
qed

text \<open>
  C4 as stated fails where it says that the value returned reports the state reached:
  switching off a driver that is off returns \<^verbatim>\<open>True\<close> while the power flag is
  \<^verbatim>\<open>False\<close>.
\<close>

theorem setPower_false_returns_true:
  "power projector_off = False \<and>
   setPower net_ok projector_off False [] = (Inr True, projector_off, []) \<and>
   fst (setPower net_ok projector_off False []) \<noteq>
     Inr (power (fst (snd (setPower net_ok projector_off False []))))"
  by (simp add: setPower_def projector_off_eq)

lemma register_commands_no_power:
  "list_all (\<lambda>(c, cfg). cmd_type cfg \<noteq> 901 \<and> cmd_type cfg \<noteq> 902) cmds \<Longrightarrow>
   cmd_on (register_commands cmds self) = cmd_on self \<and>
   cmd_off (register_commands cmds self) = cmd_off self"
  by (induction cmds arbitrary: self) (auto simp: Let_def split: option.splits)

lemma setPower_no_commands:
  "cmd_on self = None \<Longrightarrow> cmd_off self = None \<Longrightarrow>
   setPower net self enable tr = (Inr True, self\<lparr>power := enable\<rparr>, tr)"
  by (simp add: setPower_def)

lemma setPower_returns_True:
  "setPower net self enable tr = (Inr r, self', tr') \<Longrightarrow>
   r = True \<and> self' = self\<lparr>power := enable\<rparr>"
  by (auto simp: setPower_def split: if_splits prod.splits sum.splits)

lemma setPower_on_propagates:
  "power self \<noteq> enable \<Longrightarrow> enable \<Longrightarrow> cmd_on self = Some c \<Longrightarrow>
   send_extras net self c tr = (Inl e, tr') \<Longrightarrow>
   setPower net self enable tr = (Inl e, self, tr')"
  by (simp add: setPower_def)

lemma setPower_off_propagates:
  "power self \<noteq> enable \<Longrightarrow> \<not> enable \<Longrightarrow> cmd_off self = Some c \<Longrightarrow>
   send_extras net self c tr = (Inl e, tr') \<Longrightarrow>
   setPower net self enable tr = (Inl e, self, tr')"
  by (simp add: setPower_def)

lemma setPower_raised_unchanged:
  "setPower net self enable tr = (Inl e, self', tr') \<Longrightarrow> self' = self \<and> power self \<noteq> enable"
  by (auto simp: setPower_def split: if_splits prod.splits sum.splits)

lemma send_extras_on_nojson:
  "send_extras net_nojson projector_off ''on'' [] =
     (Inl (ValueError ''No JSON object could be decoded''),
      [HttpGet ''http://raspberry.sfo.sensenet.nu:5001/write/A1''])"
  by (simp add: send_extras_def sendCommand_def sendIr_def projector_off_eq net_nojson_def
        isdigit_def is_digit_char_def)

lemma send_extras_off_nojson:
  "send_extras net_nojson projector_on ''off'' [] =
     (Inl (ValueError ''No JSON object could be decoded''),
      [HttpGet ''http://raspberry.sfo.sensenet.nu:5001/write/A2''])"
  by (simp add: send_extras_def sendCommand_def sendIr_def projector_on_def projector_off_eq
        net_nojson_def isdigit_def is_digit_char_def)

text \<open>
  C8 (as amended). A driver built from a configuration with no command of type 901 and
  none of type 902 has neither a power-on nor a power-off command; on it
  \<^verbatim>\<open>setPower(enable)\<close> sends nothing, stores the requested value in the power flag and
  returns \<^verbatim>\<open>True\<close>. On any driver, whenever \<^verbatim>\<open>setPower\<close> returns, it returns
  \<^verbatim>\<open>True\<close> and the power flag holds the requested value. When the power flag differs
  from the request and sending the power-on sequence (on enabling) or the power-off
  sequence (on disabling) raises, that exception leaves \<^verbatim>\<open>setPower\<close>: nothing is
  returned and the driver, its power flag included, is unchanged; and whenever
  \<^verbatim>\<open>setPower\<close> ends in an exception the driver is unchanged.
\<close>

theorem setPower_without_power_commands:
  "(irplus_init files base srv data = Inr self \<and>
    list_all (\<lambda>(c, cfg). cmd_type cfg \<noteq> 901 \<and> cmd_type cfg \<noteq> 902) (cfg_commands data) \<longrightarrow>
      cmd_on self = None \<and> cmd_off self = None \<and>
      setPower net self enable tr = (Inr True, self\<lparr>power := enable\<rparr>, tr)) \<and>
   (setPower net d enable tr = (Inr r, d', tr') \<longrightarrow> r = True \<and> d' = d\<lparr>power := enable\<rparr>) \<and>
   (power d \<noteq> enable \<and> enable \<and> cmd_on d = Some c \<and>
    send_extras net d c tr = (Inl e, tr') \<longrightarrow>
      setPower net d enable tr = (Inl e, d, tr')) \<and>
   (power d \<noteq> enable \<and> \<not> enable \<and> cmd_off d = Some c \<and>
    send_extras net d c tr = (Inl e, tr') \<longrightarrow>
      setPower net d enable tr = (Inl e, d, tr')) \<and>
   (setPower net d enable tr = (Inl e, d', tr') \<longrightarrow> d' = d \<and> power d \<noteq> enable)"
proof (intro conjI impI)
  assume a: "irplus_init files base srv data = Inr self \<and>
    list_all (\<lambda>(c, cfg). cmd_type cfg \<noteq> 901 \<and> cmd_type cfg \<noteq> 902) (cfg_commands data)"
  then obtain table where
    self: "self = register_commands (cfg_commands data)
                 \<lparr>COMMAND_HANDLER = COMMAND_HANDLER base, power = power base,
                  server = srv, cmd_on = None, cmd_off = None, ircmds = table\<rparr>"
    by (auto simp: irplus_init_def split: option.splits)
  from a have "list_all (\<lambda>(c, cfg). cmd_type cfg \<noteq> 901 \<and> cmd_type cfg \<noteq> 902) (cfg_commands data)"
    by simp
  from register_commands_no_power [OF this] self
  show on: "cmd_on self = None" and off: "cmd_off self = None" by simp_all
  from setPower_no_commands [OF on off]
  show "setPower net self enable tr = (Inr True, self\<lparr>power := enable\<rparr>, tr)" .
next
  assume "setPower net d enable tr = (Inr r, d', tr')"
  from setPower_returns_True [OF this]
  show "r = True" and "d' = d\<lparr>power := enable\<rparr>" by simp_all
next
  assume "power d \<noteq> enable \<and> enable \<and> cmd_on d = Some c \<and>
    send_extras net d c tr = (Inl e, tr')"
  then show "setPower net d enable tr = (Inl e, d, tr')"
    by (simp add: setPower_on_propagates)
next
  assume "power d \<noteq> enable \<and> \<not> enable \<and> cmd_off d = Some c \<and>
    send_extras net d c tr = (Inl e, tr')"
  then show "setPower net d enable tr = (Inl e, d, tr')"
    by (simp add: setPower_off_propagates)
next
  assume "setPower net d enable tr = (Inl e, d', tr')"
  from setPower_raised_unchanged [OF this]
  show "d' = d" and "power d \<noteq> enable" by simp_all
qed

theorem setPower_without_power_commands_witness:
  "irplus_init ir_files fresh_base (AV @ '':5001'') plain_config = Inr plain_driver \<and>
   list_all (\<lambda>(c, cfg). cmd_type cfg \<noteq> 901 \<and> cmd_type cfg \<noteq> 902) (cfg_commands plain_config) \<and>
   cmd_on plain_driver = None \<and> cmd_off plain_driver = None \<and>
   setPower net_ok plain_driver True [] = (Inr True, plain_driver\<lparr>power := True\<rparr>, []) \<and>
   setPower net_ok projector_off True [] =
     (Inr True, projector_off\<lparr>power := True\<rparr>,
      [HttpGet ''http://raspberry.sfo.sensenet.nu:5001/write/A1'']) \<and>
   setPower net_nojson projector_off True [] =
     (Inl (ValueError ''No JSON object could be decoded''), projector_off,
      [HttpGet ''http://raspberry.sfo.sensenet.nu:5001/write/A1'']) \<and>
   setPower net_nojson projector_on False [] =
     (Inl (ValueError ''No JSON object could be decoded''), projector_on,
      [HttpGet ''http://raspberry.sfo.sensenet.nu:5001/write/A2'']) \<and>
   power projector_on \<noteq> False"
proof -
  have c: "list_all (\<lambda>(c, cfg). cmd_type cfg \<noteq> 901 \<and> cmd_type cfg \<noteq> 902) (cfg_commands plain_config)"
    by (simp add: plain_config_def)
  have run: "setPower net_ok projector_off True [] =
     (Inr True, projector_off\<lparr>power := True\<rparr>,
      [HttpGet ''http://raspberry.sfo.sensenet.nu:5001/write/A1''])"
    by (simp add: setPower_def send_extras_def sendCommand_def sendIr_def projector_off_eq
         net_ok_def isdigit_def is_digit_char_def)
  have w1: "cmd_on plain_driver = None \<and> cmd_off plain_driver = None \<and>
     setPower net_ok plain_driver True [] = (Inr True, plain_driver\<lparr>power := True\<rparr>, [])"
    using setPower_without_power_commands [where files = ir_files and base = fresh_base
      and srv = "AV @ '':5001''" and data = plain_config and self = plain_driver
      and net = net_ok and enable = True and tr = "[]" and d = projector_off and r = True
      and d' = "projector_off\<lparr>power := True\<rparr>"
      and tr' = "[HttpGet ''http://raspberry.sfo.sensenet.nu:5001/write/A1'']"]
      plain_init c run
    by simp
  have off: "power projector_off \<noteq> True" "cmd_on projector_off = Some ''on''"
    by (simp_all add: projector_off_eq)
  have w2: "setPower net_nojson projector_off True [] =
     (Inl (ValueError ''No JSON object could be decoded''), projector_off,
      [HttpGet ''http://raspberry.sfo.sensenet.nu:5001/write/A1''])"
    using setPower_without_power_commands [where net = net_nojson and d = projector_off
      and enable = True and tr = "[]" and c = "''on''"
      and e = "ValueError ''No JSON object could be decoded''"
      and tr' = "[HttpGet ''http://raspberry.sfo.sensenet.nu:5001/write/A1'']"]
      off send_extras_on_nojson
    by simp
  have on: "power projector_on \<noteq> False" "cmd_off projector_on = Some ''off''"
    by (simp_all add: projector_on_def projector_off_eq)
  have w3: "setPower net_nojson projector_on False [] =
     (Inl (ValueError ''No JSON object could be decoded''), projector_on,
      [HttpGet ''http://raspberry.sfo.sensenet.nu:5001/write/A2''])"
    using setPower_without_power_commands [where net = net_nojson and d = projector_on
      and enable = False and tr = "[]" and c = "''off''"
      and e = "ValueError ''No JSON object could be decoded''"
      and tr' = "[HttpGet ''http://raspberry.sfo.sensenet.nu:5001/write/A2'']"]
      on send_extras_off_nojson
    by simp
  have w4: "power projector_on \<noteq> False"
    using setPower_without_power_commands [where net = net_nojson and d = projector_on
      and enable = False and tr = "[]"
      and e = "ValueError ''No JSON object could be decoded''" and d' = projector_on
      and tr' = "[HttpGet ''http://raspberry.sfo.sensenet.nu:5001/write/A2'']"] w3
    by simp
  from plain_init c w1 run w2 w3 w4 show ?thesis by (intro conjI) simp_all
qed

text \<open>
  C8 as stated fails where it says that \<^verbatim>\<open>setPower\<close> always returns \<^verbatim>\<open>True\<close>:
  when the device answers the power-on request with status 200 and a body that is not
  JSON, decoding the answer raises; \<^verbatim>\<open>setPower(True)\<close> on the projector, switched
  off, then returns nothing and the power flag stays \<^verbatim>\<open>False\<close>.
\<close>

theorem setPower_raises:
  "setPower net_nojson projector_off True [] =
     (Inl (ValueError ''No JSON object could be decoded''), projector_off,
      [HttpGet ''http://raspberry.sfo.sensenet.nu:5001/write/A1''])"
  by (simp add: setPower_def send_extras_def sendCommand_def sendIr_def projector_off_eq
        net_nojson_def isdigit_def is_digit_char_def)

subsection \<open>Unknown IR commands\<close>

text \<open>
  C5. Sending a command name that is not registered for the driver should fail in a
  structured way and never with an unhandled exception. On a name that is not in the
  IR table \<^verbatim>\<open>sendIr\<close> prints its warning, then indexes the table with the name all
  the same, and the call ends in an unhandled KeyError.
\<close>

theorem sendIr_unknown_raises_KeyError:
  "sendIr net_ok projector_off ''nosuch'' [] =
     (Inl (KeyError ''nosuch''), [Print ''WARN: nosuch is not a defined IR command''])"
  by (simp add: sendIr_def projector_off_eq)

subsection \<open>Roku: extras and text input\<close>

lemma getApps_trace:
  "snd (snd (getApps net self tr)) = tr @ [HttpGet (rk_server self @ ''query/apps'')]"
  by (simp add: getApps_def Let_def split: option.splits prod.splits)

text \<open>
  C9 (as amended). For extras that hold the key \<^verbatim>\<open>appid\<close> and not the key
  \<^verbatim>\<open>app\<close>, \<^verbatim>\<open>eventExtras\<close> first asks the device for its application list (one GET
  of \<^verbatim>\<open>query/apps\<close>) and then ends in an exception, which is the NameError of the
  \<^verbatim>\<open>appid\<close> branch whenever the list was read without error. The GET is the only
  request: no application is launched.
\<close>

theorem eventExtras_appid:
  "map_of extras_map ''appid'' \<noteq> None \<and> map_of extras_map ''app'' = None \<longrightarrow>
     (\<exists>e. fst (eventExtras net self extras_map tr) = Inl e) \<and>
     snd (snd (eventExtras net self extras_map tr)) =
       tr @ [HttpGet (rk_server self @ ''query/apps'')] \<and>
     ((\<exists>found. fst (getApps net self tr) = Inr found) \<longrightarrow>
        fst (eventExtras net self extras_map tr) = Inl (NameError ''appid''))"
proof
  assume a: "map_of extras_map ''appid'' \<noteq> None \<and> map_of extras_map ''app'' = None"
  obtain r self1 tr1 where g: "getApps net self tr = (r, self1, tr1)"
    by (cases "getApps net self tr") auto
  with getApps_trace [of net self tr]
  have tr1: "tr1 = tr @ [HttpGet (rk_server self @ ''query/apps'')]" by simp
  show "(\<exists>e. fst (eventExtras net self extras_map tr) = Inl e) \<and>
     snd (snd (eventExtras net self extras_map tr)) =
       tr @ [HttpGet (rk_server self @ ''query/apps'')] \<and>
     ((\<exists>found. fst (getApps net self tr) = Inr found) \<longrightarrow>
        fst (eventExtras net self extras_map tr) = Inl (NameError ''appid''))"
  proof (cases r)
    case (Inl e)
    with a g tr1 show ?thesis by (simp add: eventExtras_def)
  next
    case (Inr found)
    with a g tr1 show ?thesis by (auto simp: eventExtras_def)
  qed
qed

theorem eventExtras_appid_witness:
  "fst (eventExtras roku_net roku_box [(''appid'', ''12'')] []) = Inl (NameError ''appid'') \<and>
   snd (snd (eventExtras roku_net roku_box [(''appid'', ''12'')] [])) =
     [HttpGet ''http://roku.sfo.sensenet.nu:8060/query/apps'']"
  using eventExtras_appid [of "[(''appid'', ''12'')]" roku_net roku_box "[]"] getApps_roku_box
  by (simp add: roku_box_def roku_init_def)

text \<open>
  C9 as stated fails where it says that the NameError comes before the device is
  contacted: the request for the application list has gone out by then.
\<close>

theorem eventExtras_appid_contacts_device:
  "eventExtras roku_net roku_box [(''appid'', ''12'')] [] =
     (Inl (NameError ''appid''),
      roku_box\<lparr>apps := [(Some ''Netflix'', 12), (Some ''Amazon Video'', 13)]\<rparr>,
      [HttpGet ''http://roku.sfo.sensenet.nu:8060/query/apps''])"
  by (simp add: eventExtras_def getApps_roku_box)



section \<open>Properties of the configuration\<close>

text \<open>
  C6. Every driver id the configuration names should be declared in the driver table.
  The driver keys of all routes are; the producing driver \<^verbatim>\<open>ps4\<close> of the scene
  \<^verbatim>\<open>ps4\<close> is not, and it is the only reference that is not.
\<close>

theorem ps4_scene_driver_undeclared:
  "undeclared_refs = [''ps4''] \<and>
   map_option scene_driver (map_of SCENE_TABLE ''ps4'') = Some ''ps4'' \<and>
   \<not> declared DRIVER_TABLE ''ps4'' \<and>
   filter (\<lambda>d. \<not> declared DRIVER_TABLE d) (route_drivers ROUTING_TABLE) = []"
  by (simp add: undeclared_refs_def declared_def DRIVER_TABLE_def scene_drivers_def
        SCENE_TABLE_def route_drivers_def ROUTING_TABLE_def)

section \<open>Properties of the catalog and the router\<close>

subsection \<open>The scene netflix on the sub-zones of zone1\<close>

lemmas table_defs =
  CATALOG_def DRIVER_TABLE_def ROUTING_TABLE_def SCENE_TABLE_def ZONE_TABLE_def AV_def

lemma netflix_lookup: "map_of (scenes CATALOG) ''netflix'' = Some netflix_scene"
  by (simp add: table_defs netflix_scene_def)

lemma netflix_routes:
  "routesFor CATALOG netflix_scene AudioVideo =
     [[(''tv'', [''input-hdmi1'']), (''receiver'', [''input-dvd''])],
      [(''projector'', []), (''receiver'', [''input-dvd'']), (''screen'', [])]]"
  by (simp add: routesFor_def class_key_def netflix_scene_def table_defs)

lemma resolve_tv:
  "resolve_request CATALOG st (''zone1'', Some ''tv'') = Inr ((''zone1'', Some ''tv''), tv_subzone)"
  by (simp add: resolve_request_def tv_subzone_def table_defs)

lemma resolve_projector:
  "resolve_request CATALOG st (''zone1'', Some ''projector'') =
     Inr ((''zone1'', Some ''projector''), projector_subzone)"
  by (simp add: resolve_request_def projector_subzone_def table_defs)

lemma netflix_class:
  "capability_class netflix_scene tv_subzone = Inr AudioVideo"
  "capability_class netflix_scene projector_subzone = Inr AudioVideo"
  by (simp_all add: capability_class_def netflix_scene_def tv_subzone_def projector_subzone_def)

lemma designated_subzones:
  "designated AudioVideo tv_subzone = [''receiver'', ''tv'']"
  "designated AudioVideo projector_subzone = [''receiver'', ''projector'']"
  by (simp_all add: designated_def ref_driver_def tv_subzone_def projector_subzone_def)

lemma netflix_select:
  "selectRoute (routesFor CATALOG netflix_scene AudioVideo) AudioVideo tv_subzone =
     Inr [(''tv'', [''input-hdmi1'']), (''receiver'', [''input-dvd''])]"
  "selectRoute (routesFor CATALOG netflix_scene AudioVideo) AudioVideo projector_subzone =
     Inr [(''projector'', []), (''receiver'', [''input-dvd'']), (''screen'', [])]"
  by (simp_all add: selectRoute_def netflix_routes designated_subzones route_matches_def)

lemma netflix_required:
  "requiredDrivers [(''tv'', [''input-hdmi1'']), (''receiver'', [''input-dvd''])] netflix_scene =
     [''tv'', ''receiver'', ''roku'']"
  "requiredDrivers [(''projector'', []), (''receiver'', [''input-dvd'']), (''screen'', [])]
     netflix_scene = [''projector'', ''receiver'', ''screen'', ''roku'']"
  by (simp_all add: requiredDrivers_def netflix_scene_def)

lemma all_declared:
  "find (\<lambda>d. map_of (drivers CATALOG) d = None) [''tv'', ''receiver'', ''roku''] = None"
  "find (\<lambda>d. map_of (drivers CATALOG) d = None)
     [''projector'', ''receiver'', ''screen'', ''roku''] = None"
  by (simp_all add: CATALOG_def DRIVER_TABLE_def)

lemma netflix_plan:
  "plan_activation CATALOG st (''zone1'', Some ''tv'') ''netflix'' = Inr netflix_tv_plan"
  by (simp only: plan_activation_def resolve_tv netflix_lookup netflix_class netflix_select
        netflix_required all_declared netflix_tv_plan_def sum.case option.case prod.case)

lemma netflix_plan_projector:
  "plan_activation CATALOG st (''zone1'', Some ''projector'') ''netflix'' =
     Inr netflix_projector_plan"
  by (simp only: plan_activation_def resolve_projector netflix_lookup netflix_class
        netflix_select netflix_required all_declared netflix_projector_plan_def
        sum.case option.case prod.case)

lemma tv_plan_fields:
  "p_key netflix_tv_plan = (''zone1'', Some ''tv'')"
  "p_zone netflix_tv_plan = tv_subzone"
  "p_scene_id netflix_tv_plan = ''netflix''"
  "p_scene netflix_tv_plan = netflix_scene"
  "p_class netflix_tv_plan = AudioVideo"
  "p_route netflix_tv_plan = [(''tv'', [''input-hdmi1'']), (''receiver'', [''input-dvd''])]"
  "p_required netflix_tv_plan = [''tv'', ''receiver'', ''roku'']"
  by (simp_all add: netflix_tv_plan_def)

lemma projector_plan_fields:
  "p_key netflix_projector_plan = (''zone1'', Some ''projector'')"
  "p_required netflix_projector_plan = [''projector'', ''receiver'', ''screen'', ''roku'']"
  by (simp_all add: netflix_projector_plan_def)

lemma empty_unreferenced: "referenceCount empty_alloc d = 0"
  by (simp add: referenceCount_def holders_def empty_alloc_def)

lemma power_on_three:
  "power_on ''roku'' (power_on ''receiver'' (power_on ''tv'' empty_alloc)) =
     \<lparr>zone_allocs = [], active_sub = [], powered = [''tv'', ''receiver'', ''roku''],
      issued = [PowerOn ''tv'', PowerOn ''receiver'', PowerOn ''roku'']\<rparr>"
  by (simp add: power_on_def empty_alloc_def)

lemma tv_route_calls:
  "route_calls tv_subzone [(''tv'', [''input-hdmi1'']), (''receiver'', [''input-dvd''])] =
     [Send ''tv'' ''input-hdmi1'' None, Send ''receiver'' ''input-dvd'' (Some ''1'')]"
  by (simp add: route_calls_def zone_index_def ref_driver_def ref_index_def tv_subzone_def
        isdigit_def is_digit_char_def)

lemma tv_netflix_commit:
  "commit netflix_tv_plan None empty_alloc =
     \<lparr>zone_allocs =
        [((''zone1'', Some ''tv''),
          \<lparr>za_scene = ''netflix'', za_class = AudioVideo, za_audio_active = True,
           za_video_active = True, za_held = [''tv'', ''receiver'', ''roku'']\<rparr>)],
      active_sub = [(''zone1'', ''tv'')],
      powered = [''tv'', ''receiver'', ''roku''],
      issued =
        [PowerOn ''tv'', PowerOn ''receiver'', PowerOn ''roku'',
         ApplyExtras ''roku'' ''app=netflix'',
         Send ''tv'' ''input-hdmi1'' None,
         Send ''receiver'' ''input-dvd'' (Some ''1'')]\<rparr>"
proof -
  have ex: "scene_driver_extras netflix_scene = Some ''app=netflix''"
    "scene_driver netflix_scene = ''roku''" "zone_audio tv_subzone = Some ''receiver:1''"
    by (simp_all add: netflix_scene_def tv_subzone_def)
  show ?thesis
    unfolding commit_def tv_plan_fields empty_unreferenced
    by (simp add: power_on_three tv_route_calls ex Let_def)
qed

lemma tv_netflix_eq:
  "tv_netflix =
     \<lparr>zone_allocs =
        [((''zone1'', Some ''tv''),
          \<lparr>za_scene = ''netflix'', za_class = AudioVideo, za_audio_active = True,
           za_video_active = True, za_held = [''tv'', ''receiver'', ''roku'']\<rparr>)],
      active_sub = [(''zone1'', ''tv'')],
      powered = [''tv'', ''receiver'', ''roku''],
      issued =
        [PowerOn ''tv'', PowerOn ''receiver'', PowerOn ''roku'',
         ApplyExtras ''roku'' ''app=netflix'',
         Send ''tv'' ''input-hdmi1'' None,
         Send ''receiver'' ''input-dvd'' (Some ''1'')]\<rparr>"
proof -
  have c: "check_conflicts empty_alloc (''zone1'', Some ''tv'') [''tv'', ''receiver'', ''roku''] = None"
    by (simp add: holders_def empty_alloc_def)
  have "tv_netflix = sweep (commit netflix_tv_plan None empty_alloc)"
    by (simp only: tv_netflix_def activate_def netflix_plan tv_plan_fields c sum.case
          option.case if_False Let_def snd_conv)
  also have "\<dots> = commit netflix_tv_plan None empty_alloc"
    unfolding tv_netflix_commit by (simp add: sweep_def referenceCount_def holders_def)
  finally show ?thesis by (simp only: tv_netflix_commit)
qed

subsection \<open>The active sub-zone under the router's operations\<close>

lemma active_sub_fold_power_off: "active_sub (fold power_off ds st) = active_sub st"
  by (induction ds arbitrary: st) (simp_all add: power_off_def)

lemma active_sub_fold_power_on: "active_sub (fold power_on ds st) = active_sub st"
  by (induction ds arbitrary: st) (simp_all add: power_on_def)

lemma active_sub_sweep: "active_sub (sweep st) = active_sub st"
  by (simp add: sweep_def active_sub_fold_power_off)

lemma active_sub_release_others: "active_sub (release_others cat k ds st) = active_sub st"
  by (simp add: release_others_def)

lemma active_sub_commit:
  "active_sub (commit p ex st) =
     (case snd (p_key p) of
        None \<Rightarrow> active_sub st
      | Some s \<Rightarrow> AList.update (fst (p_key p)) s (active_sub st))"
  by (simp add: commit_def Let_def active_sub_fold_power_on split: option.splits)

lemma plan_key:
  "plan_activation cat st zr sid = Inr p \<Longrightarrow> \<exists>sz. resolve_request cat st zr = Inr (p_key p, sz)"
  by (auto simp: plan_activation_def split: sum.splits option.splits prod.splits)

lemma resolveConcreteZone_active:
  "map_of (active_sub st) z = Some a \<Longrightarrow> resolveConcreteZone cat st z = Inr (sub, sz) \<Longrightarrow>
   sub = None \<or> sub = Some a"
  by (auto simp: resolveConcreteZone_def split: option.splits zone.splits)

lemma resolve_request_key:
  assumes "resolve_request cat st zr = Inr (k, sz)"
  shows "fst k = fst zr"
    and "snd zr = Some s \<Longrightarrow> snd k = Some s"
    and "snd zr = None \<Longrightarrow> map_of (active_sub st) (fst zr) = Some a \<Longrightarrow>
         snd k = None \<or> snd k = Some a"
  using assms
  by (auto simp: resolve_request_def split: option.splits sum.splits prod.splits zone.splits
           dest: resolveConcreteZone_active)

lemma activate_result:
  assumes "activate cat st zr sid ex ov = (r, st')"
  shows "(\<exists>e. r = Inl e \<and> st' = st) \<or>
   (\<exists>p st1. plan_activation cat st zr sid = Inr p \<and> r = Inr (p_class p, p_required p) \<and>
        active_sub st1 = active_sub st \<and> st' = sweep (commit p ex st1))"
proof (cases "plan_activation cat st zr sid")
  case (Inl e)
  with assms show ?thesis by (auto simp: activate_def)
next
  case (Inr p)
  define st1 where "st1 = (if ov then release_others cat (p_key p) (p_required p) st else st)"
  have a: "active_sub st1 = active_sub st"
    by (simp add: st1_def active_sub_release_others)
  show ?thesis
  proof (cases "if ov then None else check_conflicts st (p_key p) (p_required p)")
    case None
    with Inr assms have "r = Inr (p_class p, p_required p)" "st' = sweep (commit p ex st1)"
      by (simp_all add: activate_def st1_def Let_def)
    with Inr a show ?thesis by blast
  next
    case (Some c)
    with Inr assms show ?thesis by (auto simp: activate_def split: prod.splits)
  qed
qed

lemma activate_keeps_active_sub:
  assumes act: "map_of (active_sub st) z = Some a"
    and no: "\<not> (fst zr = z \<and> snd zr \<noteq> None \<and> snd zr \<noteq> Some a)"
  shows "map_of (active_sub (snd (activate cat st zr sid ex ov))) z = Some a"
proof -
  obtain r st' where res: "activate cat st zr sid ex ov = (r, st')"
    by (cases "activate cat st zr sid ex ov")
  from activate_result [OF res] show ?thesis
  proof
    assume "\<exists>e. r = Inl e \<and> st' = st"
    with res act show ?thesis by simp
  next
    assume "\<exists>p st1. plan_activation cat st zr sid = Inr p \<and> r = Inr (p_class p, p_required p) \<and>
        active_sub st1 = active_sub st \<and> st' = sweep (commit p ex st1)"
    then obtain p st1 where p: "plan_activation cat st zr sid = Inr p"
      and st1: "active_sub st1 = active_sub st" and st': "st' = sweep (commit p ex st1)"
      by blast
    from plan_key [OF p] obtain sz where rr: "resolve_request cat st zr = Inr (p_key p, sz)" ..
    have sub: "active_sub st' =
       (case snd (p_key p) of None \<Rightarrow> active_sub st
        | Some s \<Rightarrow> AList.update (fst (p_key p)) s (active_sub st))"
      by (simp add: st' active_sub_sweep active_sub_commit st1 split: option.splits)
    show ?thesis
    proof (cases "snd (p_key p)")
      case None
      with sub act res show ?thesis by simp
    next
      case (Some s)
      have "fst (p_key p) = z \<Longrightarrow> s = a"
      proof -
        assume fz: "fst (p_key p) = z"
        with resolve_request_key(1) [OF rr] have zz: "fst zr = z" by simp
        show "s = a"
        proof (cases "snd zr")
          case None
          from resolve_request_key(3) [OF rr None, of a] act zz Some show ?thesis by simp
        next
          case (Some s')
          from resolve_request_key(2) [OF rr Some] \<open>snd (p_key p) = Some s\<close>
          have "s' = s" by simp
          with no zz Some show ?thesis by simp
        qed
      qed
      with sub Some act res show ?thesis by (auto simp: update_conv')
    qed
  qed
qed

lemma deactivate_keeps_active_sub:
  assumes act: "map_of (active_sub st) z = Some a" and no: "fst zr \<noteq> z"
  shows "map_of (active_sub (deactivate cat st zr)) z = Some a"
proof -
  have k: "fst (case resolve_request cat st zr of Inl e \<Rightarrow> zr | Inr (k, sz) \<Rightarrow> k) = fst zr"
    by (auto split: sum.splits prod.splits dest: resolve_request_key(1))
  show ?thesis
    using act no k by (simp add: deactivate_def Let_def active_sub_sweep delete_conv')
qed

lemma step_keeps_active_sub:
  "map_of (active_sub st) z = Some a \<Longrightarrow> \<not> ends_subzone z a req \<Longrightarrow>
   map_of (active_sub (step cat st req)) z = Some a"
  by (cases req) (simp_all add: activate_keeps_active_sub deactivate_keeps_active_sub)

lemma activate_sets_active_sub:
  assumes "activate cat st (z, Some s) sid ex ov = (Inr res, st')"
  shows "map_of (active_sub st') z = Some s"
proof -
  from activate_result [OF assms] obtain p st1 where
    p: "plan_activation cat st (z, Some s) sid = Inr p" and st': "st' = sweep (commit p ex st1)"
    by auto
  from plan_key [OF p] obtain sz where
    rr: "resolve_request cat st (z, Some s) = Inr (p_key p, sz)" ..
  from resolve_request_key(1) [OF rr] resolve_request_key(2) [OF rr, of s]
  have "p_key p = (z, Some s)" by (cases "p_key p") simp
  then show ?thesis by (simp add: st' active_sub_sweep active_sub_commit update_conv')
qed

lemma resolve_default:
  "map_of (zones cat) z = Some (Virtual nm (Some d) subs hint) \<Longrightarrow>
   map_of (active_sub st) z = None \<Longrightarrow> map_of subs d = Some sz \<Longrightarrow>
   resolveConcreteZone cat st z = Inr (Some d, sz)"
  by (simp add: resolveConcreteZone_def)

lemma resolve_active:
  "map_of (zones cat) z = Some (Virtual nm dflt subs hint) \<Longrightarrow>
   map_of (active_sub st) z = Some a \<Longrightarrow> map_of subs a = Some sz \<Longrightarrow>
   resolveConcreteZone cat st z = Inr (Some a, sz)"
  by (simp add: resolveConcreteZone_def)

lemma resolve_no_default:
  "resolveConcreteZone cat st z = Inl (NoDefaultSubzone z') \<longleftrightarrow>
   z' = z \<and> map_of (active_sub st) z = None \<and>
   (\<exists>nm subs hint. map_of (zones cat) z = Some (Virtual nm None subs hint))"
  by (auto simp: resolveConcreteZone_def split: option.splits zone.splits)


lemma activate_failure_unchanged:
  assumes "fst (activate cat st zr sid ex ov) = Inl e"
  shows "snd (activate cat st zr sid ex ov) = st"
proof -
  obtain r st' where res: "activate cat st zr sid ex ov = (r, st')"
    by (cases "activate cat st zr sid ex ov")
  from activate_result [OF res] assms res show ?thesis by auto
qed

lemma projector_netflix_result:
  "activate CATALOG empty_alloc (''zone1'', Some ''projector'') ''netflix'' None False =
     (Inr (AudioVideo, [''projector'', ''receiver'', ''screen'', ''roku'']), projector_netflix)"
proof -
  have c: "check_conflicts empty_alloc (''zone1'', Some ''projector'')
             [''projector'', ''receiver'', ''screen'', ''roku''] = None"
    by (simp add: holders_def empty_alloc_def)
  have cls: "p_class netflix_projector_plan = AudioVideo"
    by (simp add: netflix_projector_plan_def)
  have "fst (activate CATALOG empty_alloc (''zone1'', Some ''projector'') ''netflix'' None False) =
      Inr (AudioVideo, [''projector'', ''receiver'', ''screen'', ''roku''])"
    by (simp only: activate_def netflix_plan_projector projector_plan_fields c cls sum.case
          option.case if_False Let_def fst_conv)
  then show ?thesis by (simp add: projector_netflix_def prod_eq_iff)
qed

text \<open>
  C1. The scene \<^verbatim>\<open>netflix\<close> (producing driver \<^verbatim>\<open>roku\<close>, audio and video) on the
  sub-zone \<^verbatim>\<open>tv\<close> of \<^verbatim>\<open>zone1\<close> (video driver \<^verbatim>\<open>tv\<close>, audio driver
  \<^verbatim>\<open>receiver:1\<close>) is given the class audio+video; route selection picks the first
  candidate of the \<^verbatim>\<open>audio+video\<close> routes of \<^verbatim>\<open>roku\<close>, which maps \<^verbatim>\<open>tv\<close> to
  \<^verbatim>\<open>input-hdmi1\<close> and \<^verbatim>\<open>receiver\<close> to \<^verbatim>\<open>input-dvd\<close> and whose keys contain both
  \<^verbatim>\<open>tv\<close> and \<^verbatim>\<open>receiver\<close>; the required drivers are \<^verbatim>\<open>roku\<close>, \<^verbatim>\<open>tv\<close> and
  \<^verbatim>\<open>receiver\<close>.
\<close>

theorem netflix_on_tv_selects_first_route:
  "map_of (scenes CATALOG) ''netflix'' = Some netflix_scene \<and>
   scene_driver netflix_scene = ''roku'' \<and> scene_audio netflix_scene \<and> scene_video netflix_scene \<and>
   resolve_request CATALOG empty_alloc (''zone1'', Some ''tv'') =
     Inr ((''zone1'', Some ''tv''), tv_subzone) \<and>
   zone_video tv_subzone = Some ''tv'' \<and> zone_audio tv_subzone = Some ''receiver:1'' \<and>
   designated AudioVideo tv_subzone = [''receiver'', ''tv''] \<and>
   capability_class netflix_scene tv_subzone = Inr AudioVideo \<and>
   selectRoute (routesFor CATALOG netflix_scene AudioVideo) AudioVideo tv_subzone =
     Inr (hd (routesFor CATALOG netflix_scene AudioVideo)) \<and>
   hd (routesFor CATALOG netflix_scene AudioVideo) =
     [(''tv'', [''input-hdmi1'']), (''receiver'', [''input-dvd''])] \<and>
   ''tv'' \<in> set (map fst (hd (routesFor CATALOG netflix_scene AudioVideo))) \<and>
   ''receiver'' \<in> set (map fst (hd (routesFor CATALOG netflix_scene AudioVideo))) \<and>
   plan_activation CATALOG empty_alloc (''zone1'', Some ''tv'') ''netflix'' = Inr netflix_tv_plan \<and>
   p_route netflix_tv_plan = hd (routesFor CATALOG netflix_scene AudioVideo) \<and>
   set (p_required netflix_tv_plan) = {''roku'', ''tv'', ''receiver''}"
proof -
  have sc: "scene_driver netflix_scene = ''roku''" "scene_audio netflix_scene"
    "scene_video netflix_scene"
    by (simp_all add: netflix_scene_def)
  have z: "zone_video tv_subzone = Some ''tv''" "zone_audio tv_subzone = Some ''receiver:1''"
    by (simp_all add: tv_subzone_def)
  have h: "hd (routesFor CATALOG netflix_scene AudioVideo) =
     [(''tv'', [''input-hdmi1'']), (''receiver'', [''input-dvd''])]"
    by (simp add: netflix_routes)
  have s: "selectRoute (routesFor CATALOG netflix_scene AudioVideo) AudioVideo tv_subzone =
     Inr (hd (routesFor CATALOG netflix_scene AudioVideo))"
    by (simp only: netflix_select h)
  have k: "''tv'' \<in> set (map fst (hd (routesFor CATALOG netflix_scene AudioVideo)))"
    "''receiver'' \<in> set (map fst (hd (routesFor CATALOG netflix_scene AudioVideo)))"
    by (simp_all add: h)
  have r: "p_route netflix_tv_plan = hd (routesFor CATALOG netflix_scene AudioVideo)"
    by (simp add: h tv_plan_fields)
  have q: "set (p_required netflix_tv_plan) = {''roku'', ''tv'', ''receiver''}"
    by (auto simp: tv_plan_fields)
  from netflix_lookup sc resolve_tv [of empty_alloc] z designated_subzones(1) netflix_class(1)
    s h k netflix_plan [of empty_alloc] r q
  show ?thesis by (intro conjI)
qed

text \<open>
  C2. With \<^verbatim>\<open>netflix\<close> active on the sub-zone \<^verbatim>\<open>tv\<close>, which then holds
  \<^verbatim>\<open>receiver\<close>, activating the same scene on the sub-zone \<^verbatim>\<open>projector\<close> without
  override fails with the conflict on \<^verbatim>\<open>receiver\<close> owned by the sub-zone \<^verbatim>\<open>tv\<close> and
  returns the state unchanged; \<^verbatim>\<open>receiver\<close> is a driver key of both candidate
  \<^verbatim>\<open>audio+video\<close> routes of the scene's driver.
\<close>

theorem projector_conflicts_on_receiver:
  "fst (activate CATALOG empty_alloc (''zone1'', Some ''tv'') ''netflix'' None False) =
     Inr (AudioVideo, [''tv'', ''receiver'', ''roku'']) \<and>
   tv_netflix = snd (activate CATALOG empty_alloc (''zone1'', Some ''tv'') ''netflix'' None False) \<and>
   holders tv_netflix ''receiver'' = [(''zone1'', Some ''tv'')] \<and>
   activate CATALOG tv_netflix (''zone1'', Some ''projector'') ''netflix'' None False =
     (Inl (DriverConflict ''receiver'' (''zone1'', Some ''tv'')), tv_netflix) \<and>
   map (\<lambda>r. ''receiver'' \<in> set (map fst r)) (routesFor CATALOG netflix_scene AudioVideo) =
     [True, True]"
proof -
  have c0: "check_conflicts empty_alloc (''zone1'', Some ''tv'') [''tv'', ''receiver'', ''roku''] = None"
    by (simp add: holders_def empty_alloc_def)
  have f: "fst (activate CATALOG empty_alloc (''zone1'', Some ''tv'') ''netflix'' None False) =
     Inr (AudioVideo, [''tv'', ''receiver'', ''roku''])"
    by (simp only: activate_def netflix_plan tv_plan_fields c0 sum.case option.case if_False
          Let_def fst_conv)
  have h: "holders tv_netflix ''receiver'' = [(''zone1'', Some ''tv'')]"
       "holders tv_netflix ''projector'' = []"
    by (simp_all add: tv_netflix_eq holders_def)
  have c: "check_conflicts tv_netflix (''zone1'', Some ''projector'')
             [''projector'', ''receiver'', ''screen'', ''roku''] =
           Some (''receiver'', (''zone1'', Some ''tv''))"
    by (simp add: h)
  have a: "activate CATALOG tv_netflix (''zone1'', Some ''projector'') ''netflix'' None False =
     (Inl (DriverConflict ''receiver'' (''zone1'', Some ''tv'')), tv_netflix)"
    by (simp only: activate_def netflix_plan_projector projector_plan_fields c sum.case
          option.case prod.case if_False)
  have r: "map (\<lambda>r. ''receiver'' \<in> set (map fst r)) (routesFor CATALOG netflix_scene AudioVideo) =
     [True, True]"
    by (simp add: netflix_routes)
  from f tv_netflix_def h(1) a r show ?thesis by (intro conjI)
qed

text \<open>
  C7. A virtual zone without a recorded active sub-zone resolves to its declared
  default, which for \<^verbatim>\<open>zone1\<close> is the declared sub-zone \<^verbatim>\<open>tv\<close>. A successful
  activation that names a sub-zone records it as the active one; a virtual zone with a
  recorded active sub-zone resolves to it; and the record is kept by every request that
  is neither a deactivation of the zone nor an activation naming another of its
  sub-zones, a failed activation leaving the whole state as it was. Resolution fails
  with \<^verbatim>\<open>NoDefaultSubzone\<close> exactly when the zone is virtual, has no recorded active
  sub-zone and declares no default.
\<close>

theorem virtual_zone_resolution:
  "(map_of (zones cat) z = Some (Virtual nm (Some d) subs hint) \<and>
    map_of (active_sub st) z = None \<and> map_of subs d = Some sz \<longrightarrow>
      resolveConcreteZone cat st z = Inr (Some d, sz)) \<and>
   resolveConcreteZone CATALOG empty_alloc ''zone1'' = Inr (Some ''tv'', tv_subzone) \<and>
   (activate cat st (z, Some s) sid ex ov = (Inr res, st') \<longrightarrow>
      map_of (active_sub st') z = Some s) \<and>
   (map_of (zones cat) z = Some (Virtual nm dflt subs hint) \<and>
    map_of (active_sub st) z = Some a \<and> map_of subs a = Some sz \<longrightarrow>
      resolveConcreteZone cat st z = Inr (Some a, sz)) \<and>
   (map_of (active_sub st) z = Some a \<and> \<not> ends_subzone z a req \<longrightarrow>
      map_of (active_sub (step cat st req)) z = Some a) \<and>
   (fst (activate cat st zr sid ex ov) = Inl e \<longrightarrow> snd (activate cat st zr sid ex ov) = st) \<and>
   (resolveConcreteZone cat st z = Inl (NoDefaultSubzone z') \<longleftrightarrow>
      z' = z \<and> map_of (active_sub st) z = None \<and>
      (\<exists>nm subs hint. map_of (zones cat) z = Some (Virtual nm None subs hint)))"
proof -
  have zone1: "resolveConcreteZone CATALOG empty_alloc ''zone1'' = Inr (Some ''tv'', tv_subzone)"
    by (simp add: resolveConcreteZone_def empty_alloc_def tv_subzone_def table_defs)
  show ?thesis
    using zone1
    by (intro conjI impI resolve_no_default)
       (auto intro: resolve_default resolve_active activate_sets_active_sub step_keeps_active_sub
          activate_failure_unchanged)
qed

theorem virtual_zone_resolution_witness:
  "resolveConcreteZone CATALOG empty_alloc ''zone1'' = Inr (Some ''tv'', tv_subzone) \<and>
   map_of (active_sub projector_netflix) ''zone1'' = Some ''projector'' \<and>
   resolveConcreteZone CATALOG projector_netflix ''zone1'' =
     Inr (Some ''projector'', projector_subzone) \<and>
   map_of (active_sub
     (step CATALOG projector_netflix (Activate (''zone1'', None) ''netflix'' None False)))
     ''zone1'' = Some ''projector'' \<and>
   map_of (active_sub (step CATALOG projector_netflix (Deactivate (''zone2'', None))))
     ''zone1'' = Some ''projector'' \<and>
   snd (activate CATALOG empty_alloc (''zone9'', None) ''netflix'' None False) = empty_alloc \<and>
   resolveConcreteZone no_default_catalog empty_alloc ''hall'' = Inl (NoDefaultSubzone ''hall'')"
proof -
  have z1: "map_of (zones CATALOG) ''zone1'' =
      Some (Virtual ''Livingroom'' (Some ''tv'')
        [(''tv'', tv_subzone), (''projector'', projector_subzone)] '''')"
    by (simp add: table_defs tv_subzone_def projector_subzone_def)
  have e: "map_of (active_sub empty_alloc) ''zone1'' = None"
    by (simp add: empty_alloc_def)
  have w1: "resolveConcreteZone CATALOG empty_alloc ''zone1'' = Inr (Some ''tv'', tv_subzone)"
    using virtual_zone_resolution [where cat = CATALOG and z = "''zone1''" and st = empty_alloc
        and nm = "''Livingroom''" and d = "''tv''" and hint = "''''" and sz = tv_subzone
        and subs = "[(''tv'', tv_subzone), (''projector'', projector_subzone)]"] z1 e
    by simp
  have w2: "map_of (active_sub projector_netflix) ''zone1'' = Some ''projector''"
    using virtual_zone_resolution [where cat = CATALOG and z = "''zone1''" and st = empty_alloc
        and s = "''projector''" and sid = "''netflix''" and ex = None and ov = False
        and res = "(AudioVideo, [''projector'', ''receiver'', ''screen'', ''roku''])"
        and st' = projector_netflix] projector_netflix_result
    by simp
  have w3: "resolveConcreteZone CATALOG projector_netflix ''zone1'' =
     Inr (Some ''projector'', projector_subzone)"
    using virtual_zone_resolution [where cat = CATALOG and z = "''zone1''"
        and st = projector_netflix and nm = "''Livingroom''" and dflt = "Some ''tv''"
        and hint = "''''" and a = "''projector''" and sz = projector_subzone
        and subs = "[(''tv'', tv_subzone), (''projector'', projector_subzone)]"] z1 w2
    by simp
  have w4: "map_of (active_sub
     (step CATALOG projector_netflix (Activate (''zone1'', None) ''netflix'' None False)))
     ''zone1'' = Some ''projector''"
    using virtual_zone_resolution [where cat = CATALOG and z = "''zone1''"
        and st = projector_netflix and a = "''projector''"
        and req = "Activate (''zone1'', None) ''netflix'' None False"] w2
    by simp
  have w5: "map_of (active_sub (step CATALOG projector_netflix (Deactivate (''zone2'', None))))
     ''zone1'' = Some ''projector''"
    using virtual_zone_resolution [where cat = CATALOG and z = "''zone1''"
        and st = projector_netflix and a = "''projector''"
        and req = "Deactivate (''zone2'', None)"] w2
    by simp
  have u: "fst (activate CATALOG empty_alloc (''zone9'', None) ''netflix'' None False) =
      Inl (UnknownZone ''zone9'')"
    by (simp add: activate_def plan_activation_def resolve_request_def resolveConcreteZone_def
          table_defs)
  have w6: "snd (activate CATALOG empty_alloc (''zone9'', None) ''netflix'' None False) = empty_alloc"
    using virtual_zone_resolution [where cat = CATALOG and st = empty_alloc
        and zr = "(''zone9'', None)" and sid = "''netflix''" and ex = None and ov = False
        and e = "UnknownZone ''zone9''"] u
    by simp
  have nd: "map_of (zones no_default_catalog) ''hall'' =
      Some (Virtual ''Hall'' None [(''tv'', tv_subzone)] '''')"
    by (simp add: no_default_catalog_def tv_subzone_def)
  have e2: "map_of (active_sub empty_alloc) ''hall'' = None"
    by (simp add: empty_alloc_def)
  have w7: "resolveConcreteZone no_default_catalog empty_alloc ''hall'' =
      Inl (NoDefaultSubzone ''hall'')"
    using virtual_zone_resolution [where cat = no_default_catalog and st = empty_alloc
        and z = "''hall''" and z' = "''hall''"] nd e2
    by simp
  from w1 w2 w3 w4 w5 w6 w7 show ?thesis by (intro conjI)
qed

end
